theory Spec2Isabelle
  imports Complex_Main "HOL-Library.Word"
begin

section \<open>Conventions\<close>

text \<open>
  The development embeds the video export pipeline of the repository:
  \<^verbatim>\<open>server/services/videoAssembly.ts\<close>, \<^verbatim>\<open>server/services/tts.ts\<close>,
  \<^verbatim>\<open>server/storage.ts\<close>, the batch operation of the slide renderer and the export part of
  \<^verbatim>\<open>server/routes.ts\<close>.

  \<^item> A thrown JavaScript exception is a value of type \<open>error\<close>; a function that can
    throw returns \<open>error + 'a\<close>, with \<open>Inl\<close> for the exception.
  \<^item> An optional field (\<^verbatim>\<open>videoCodec?: string\<close>) is an \<open>option\<close>; \<open>None\<close> is
    \<^verbatim>\<open>undefined\<close> or \<^verbatim>\<open>null\<close>.
  \<^item> Identifiers, paths, codec names and messages are \<open>string\<close>s: they are only
    compared and concatenated. The narration text, whose length matters, is a list of
    UTF-16 code units.
  \<^item> A JavaScript number is an IEEE 754 double; a finite double is modelled by the \<open>real\<close>
    it denotes. Comparison, \<^verbatim>\<open>Math.min\<close>, \<^verbatim>\<open>Math.max\<close> and \<^verbatim>\<open>Math.floor\<close> are
    exact on doubles; \<^verbatim>\<open>+\<close>, \<^verbatim>\<open>-\<close>, \<^verbatim>\<open>*\<close> and \<^verbatim>\<open>/\<close> round their exact result
    to the nearest double (section \<open>Double-precision arithmetic\<close>). \<^verbatim>\<open>NaN\<close> and the
    infinities are not modelled.
  \<^item> External processes (the speech API, the headless browser, ffmpeg, the file system,
    the clock) are parameters of the model: a record says what each call does.
  \<^item> A field name that several records share is written with its record:
    \<open>Export.progress\<close>, \<open>SlideVideoInput.duration\<close>.
  \<^item> Delays and console output are left out, except the progress lines of the assembly
    service, which record the order of its progress writes.
\<close>

datatype error = Error string | TypeError string | NonError

text \<open>
  \<^verbatim>\<open>error instanceof Error ? error.message : 'Unknown error'\<close>, the way every
  \<^verbatim>\<open>catch\<close> block of the pipeline reads the message of what it caught. \<open>NonError\<close> is
  a thrown value that is not an \<^verbatim>\<open>Error\<close> instance.
\<close>

fun message :: "error \<Rightarrow> string" where
  "message (Error m) = m"
| "message (TypeError m) = m"
| "message NonError = ''Unknown error''"

fun error_name :: "error \<Rightarrow> string" where
  "error_name (Error m) = ''Error''"
| "error_name (TypeError m) = ''TypeError''"
| "error_name NonError = []"

text \<open>
  \<^verbatim>\<open>s || d\<close> on an optional string: \<^verbatim>\<open>undefined\<close> and the empty string are falsy.
\<close>

definition truthy :: "string option \<Rightarrow> bool" where
  "truthy s = (case s of None \<Rightarrow> False | Some v \<Rightarrow> v \<noteq> [])"

definition or_default :: "string option \<Rightarrow> string \<Rightarrow> string" where
  "or_default s d = (case s of None \<Rightarrow> d | Some v \<Rightarrow> if v = [] then d else v)"

text \<open>
  \<^verbatim>\<open>obj[key]\<close> on an object literal: the result is the object's own property, or a
  property inherited from \<^verbatim>\<open>Object.prototype\<close>, or \<^verbatim>\<open>undefined\<close>. The inherited
  properties are functions (and, for \<^verbatim>\<open>__proto__\<close>, the prototype object): truthy
  values that are not arrays and have none of the fields of the literal's values.
\<close>

datatype 'a property = Undefined | Own 'a | Inherited

definition Object_prototype_properties :: "string list" where
  "Object_prototype_properties =
     [''constructor'', ''__proto__'', ''__defineGetter__'', ''__defineSetter__'',
      ''__lookupGetter__'', ''__lookupSetter__'', ''hasOwnProperty'', ''isPrototypeOf'',
      ''propertyIsEnumerable'', ''toLocaleString'', ''toString'', ''valueOf'']"

definition lookup_property :: "(string \<times> 'a) list \<Rightarrow> string \<Rightarrow> 'a property" where
  "lookup_property obj key =
     (case map_of obj key of
        Some v \<Rightarrow> Own v
      | None \<Rightarrow> if key \<in> set Object_prototype_properties then Inherited else Undefined)"

text \<open>
  A JavaScript string is a sequence of UTF-16 code units; \<^verbatim>\<open>length\<close> and
  \<^verbatim>\<open>substring\<close> count code units.
\<close>

type_synonym jsstring = "16 word list"

definition utf16 :: "string \<Rightarrow> jsstring" where
  "utf16 s = map (\<lambda>c. of_nat (of_char c)) s"

text \<open>\<^verbatim>\<open>String.prototype.trim\<close> strips white space and line terminators at both ends.\<close>

definition isWhiteSpace :: "16 word \<Rightarrow> bool" where
  "isWhiteSpace c \<longleftrightarrow>
     c \<in> set [9, 10, 11, 12, 13, 32, 160, 5760, 8192, 8193, 8194, 8195, 8196, 8197, 8198,
              8199, 8200, 8201, 8202, 8232, 8233, 8239, 8287, 12288, 65279]"

definition trim :: "jsstring \<Rightarrow> jsstring" where
  "trim s = rev (dropWhile isWhiteSpace (rev (dropWhile isWhiteSpace s)))"

text \<open>\<^verbatim>\<open>Array.prototype.join\<close>.\<close>

fun join :: "'a list \<Rightarrow> 'a list list \<Rightarrow> 'a list" where
  "join sep [] = []"
| "join sep [x] = x"
| "join sep (x # y # ys) = x @ sep @ join sep (y # ys)"

text \<open>\<^verbatim>\<open>String.prototype.includes\<close>.\<close>

fun starts_with :: "'a list \<Rightarrow> 'a list \<Rightarrow> bool" where
  "starts_with s [] = True"
| "starts_with [] (x # xs) = False"
| "starts_with (y # ys) (x # xs) = (x = y \<and> starts_with ys xs)"

fun includes_str :: "'a list \<Rightarrow> 'a list \<Rightarrow> bool" where
  "includes_str [] sub = (sub = [])"
| "includes_str (c # cs) sub = (starts_with (c # cs) sub \<or> includes_str cs sub)"

text \<open>\<^verbatim>\<open>path.join\<close> of a directory and a file name.\<close>

definition path_join :: "string \<Rightarrow> string \<Rightarrow> string" where
  "path_join dir file = dir @ ''/'' @ file"

text \<open>Decimal rendering of a natural number, as a template literal prints it.\<close>

fun string_of_nat :: "nat \<Rightarrow> string" where
  "string_of_nat n =
     (if n < 10 then [char_of (48 + n)]
      else string_of_nat (n div 10) @ [char_of (48 + n mod 10)])"

declare string_of_nat.simps [simp del]

text \<open>\<^verbatim>\<open>progress.percent || 0\<close>.\<close>

definition percent_or_0 :: "real option \<Rightarrow> real" where
  "percent_or_0 p = (case p of None \<Rightarrow> 0 | Some v \<Rightarrow> v)"

section \<open>Double-precision arithmetic\<close>

text \<open>
  The arithmetic operators of JavaScript work on IEEE 754 binary64 numbers with the
  rounding mode round-to-nearest, ties to even: the result of \<^verbatim>\<open>x + y\<close>, \<^verbatim>\<open>x - y\<close>,
  \<^verbatim>\<open>x * y\<close> and \<^verbatim>\<open>x / y\<close> is the exact result rounded to a number with a significand of
  53 bits (and to a multiple of \<^verbatim>\<open>2^-1074\<close> below the normal range). A decimal literal such
  as \<^verbatim>\<open>0.7\<close> denotes the double nearest to it. Results beyond the largest finite double
  are outside the model.

  \<open>bit_length k\<close> is the number of binary digits of a positive integer, \<open>exponent x\<close> the
  integer \<open>e\<close> with \<^verbatim>\<open>2^e <= |x| < 2^(e+1)\<close> for \<open>x \<noteq> 0\<close>.
\<close>

function bit_length :: "int \<Rightarrow> int" where
  "bit_length k = (if k \<le> 0 then 0 else bit_length (k div 2) + 1)"
  by pat_completeness auto
termination
  by (relation "measure nat") auto

declare bit_length.simps [simp del]

definition pow2 :: "int \<Rightarrow> real" where
  "pow2 e = (if 0 \<le> e then 2 ^ nat e else 1 / 2 ^ nat (- e))"

definition exponent :: "real \<Rightarrow> int" where
  "exponent x =
     (if 1 \<le> \<bar>x\<bar> then bit_length \<lfloor>\<bar>x\<bar>\<rfloor> - 1
      else - bit_length (\<lceil>1 / \<bar>x\<bar>\<rceil> - 1))"

text \<open>The nearest integer, the even one of two that are equally near.\<close>

definition round_half_even :: "real \<Rightarrow> int" where
  "round_half_even m =
     (if m - real_of_int \<lfloor>m\<rfloor> < 1 / 2 then \<lfloor>m\<rfloor>
      else if 1 / 2 < m - real_of_int \<lfloor>m\<rfloor> then \<lfloor>m\<rfloor> + 1
      else if even \<lfloor>m\<rfloor> then \<lfloor>m\<rfloor> else \<lfloor>m\<rfloor> + 1)"

text \<open>The double nearest to a real number: a multiple of the unit in the last place.\<close>

definition to_double :: "real \<Rightarrow> real" where
  "to_double x =
     (if x = 0 then 0
      else real_of_int (round_half_even (x / pow2 (max (exponent x - 52) (- 1074)))) *
           pow2 (max (exponent x - 52) (- 1074)))"

text \<open>The operators \<^verbatim>\<open>+\<close>, \<^verbatim>\<open>-\<close>, \<^verbatim>\<open>*\<close> and \<^verbatim>\<open>/\<close> on numbers.\<close>

definition dadd :: "real \<Rightarrow> real \<Rightarrow> real" where
  "dadd x y = to_double (x + y)"

definition dsub :: "real \<Rightarrow> real \<Rightarrow> real" where
  "dsub x y = to_double (x - y)"

definition dmul :: "real \<Rightarrow> real \<Rightarrow> real" where
  "dmul x y = to_double (x * y)"

definition ddiv :: "real \<Rightarrow> real \<Rightarrow> real" where
  "ddiv x y = to_double (x / y)"

section \<open>Data model\<close>

subsection \<open>Records of the source\<close>

text \<open>The export record of \<^verbatim>\<open>MemStorage\<close>, without its time stamps.\<close>

record Export =
  id' :: string
  presentationId :: string
  format :: string
  fileUrl :: "string option"
  filePath :: "string option"
  fileSize :: "real option"
  isReady :: bool
  progress :: real
  phase :: "string option"
  error :: "string option"

record PresentationRenderResult =
  slideId :: string
  imagePath :: string
  width :: real
  height :: real

record TTSResult =
  audioPath :: string
  duration :: real

record VideoAssemblyResult =
  videoPath :: string
  duration :: real

record PresentationVideoResult =
  videoPath :: string
  totalDuration :: real

record SlideNarrationResult =
  slideId :: string
  audioPath :: string
  duration :: real

record SlideVideoInput =
  imagePath :: string
  audioPath :: string
  duration :: real

text \<open>
  The fields of a slide that the pipeline reads; the schema declares all of them not null.
\<close>

record Slide =
  id' :: string
  title :: jsstring
  bulletPoints :: "jsstring list"
  speakerNotes :: jsstring

record VideoProgress =
  progress :: real
  status :: string

record Resolution =
  width :: real
  height :: real

record TransitionSettings =
  type :: string
  duration :: real

datatype quality = high | medium | low

record VideoExportOptions =
  quality :: "quality option"
  voice :: "string option"
  ttsModel :: "string option"
  transition :: "TransitionSettings option"
  format :: "string option"

record VideoQualitySettings =
  videoCodec :: "string option"
  audioCodec :: "string option"
  videoBitrate :: "string option"
  audioBitrate :: "string option"
  crf :: "real option"
  preset :: "string option"
  format :: "string option"
  resolution :: "Resolution option"

text \<open>
  The presentation handed to the export functions is untyped in the source; these are
  the properties they read.
\<close>

record presentation =
  presentation_id :: string
  presentation_title :: string
  presentation_slides :: "Slide list"

subsection \<open>The environment\<close>

text \<open>The body of one request to \<^verbatim>\<open>openai.audio.speech.create\<close>.\<close>

record speech_request =
  model :: string
  voice :: string
  input :: jsstring
  response_format :: string

text \<open>
  A value caught by \<^verbatim>\<open>catch (error: any)\<close> in the synthesizer: whether it is an
  \<^verbatim>\<open>Error\<close> instance, and its \<^verbatim>\<open>status\<close>, \<^verbatim>\<open>code\<close> and \<^verbatim>\<open>message\<close> properties
  where it has them.
\<close>

record thrown =
  instanceofError :: bool
  thrown_status :: "int option"
  thrown_code :: "string option"
  thrown_message :: "string option"

text \<open>
  What the world does at one synthesis attempt: \<open>rejects\<close> is what the request, the read
  of its body or the write of the file throws, if anything; \<open>audioExists\<close> and
  \<open>audioSize\<close> are what \<^verbatim>\<open>fs.existsSync\<close> and \<^verbatim>\<open>fs.statSync\<close> report afterwards.
\<close>

record tts_attempt =
  rejects :: "thrown option"
  audioExists :: bool
  audioSize :: nat

text \<open>
  The environment of the narration service: its temporary directory, the text of
  \<^verbatim>\<open>Date.now()\<close> when the \<open>i\<close>-th slide is processed, the outcome of the \<open>k\<close>-th
  request sent to the speech API (counted from 0), and what \<^verbatim>\<open>ffprobe\<close> reports for a
  path: \<open>Inl\<close> the message of its error, \<open>Inr\<close> the duration in the metadata if it is a
  number.
\<close>

record tts_world =
  tempDir :: string
  Date_now :: "nat \<Rightarrow> string"
  speech_create :: "nat \<Rightarrow> tts_attempt"
  ffprobe :: "string \<Rightarrow> string + real option"

text \<open>
  The environment of the slide renderer: what launching the browser throws, if anything,
  and how \<^verbatim>\<open>renderSlideWithRetry\<close> settles for the \<open>i\<close>-th slide (\<open>Inr\<close> the path of
  the image).
\<close>

record render_world =
  launch :: "error option"
  render_slide :: "nat \<Rightarrow> error + string"

text \<open>
  One run of the ffmpeg process: the \<^verbatim>\<open>percent\<close> field of each \<^verbatim>\<open>progress\<close> event in
  order (\<open>None\<close> when the field is absent), and the message of the \<^verbatim>\<open>error\<close> event, or
  \<open>None\<close> when the run ends normally.
\<close>

record ffmpeg_run =
  percents :: "real option list"
  failure :: "string option"

text \<open>
  What the world does while slide \<open>i\<close> is composed: whether the inputs exist, what
  \<^verbatim>\<open>ffprobe\<close> reports for the audio, the ffmpeg run of the \<open>k\<close>-th encoding attempt, and
  what the file system reports for the output afterwards.
\<close>

record slide_world =
  imageExists :: bool
  narrationExists :: bool
  probe :: "string + real option"
  encode :: "nat \<Rightarrow> ffmpeg_run"
  outputExists :: bool
  outputSize :: real

text \<open>
  The environment of the assembly service: whether it was constructed with a storage
  (the instance of routes.ts is), its temporary directory, the text of \<^verbatim>\<open>Date.now()\<close>
  when slide \<open>i\<close> is composed, the world of each slide, the ffmpeg run that produces the
  final file, and what the file system reports for that file.
\<close>

record video_world =
  has_storage :: bool
  videoTempDir :: string
  video_Date_now :: "nat \<Rightarrow> string"
  slide_at :: "nat \<Rightarrow> slide_world"
  final_run :: ffmpeg_run
  finalExists :: bool
  finalSize :: real

text \<open>
  The environment of an export job: the three services, the working directory, the
  text of \<^verbatim>\<open>Date.now()\<close> in the output name, the size of the finished video if the file
  exists, and how the converters of the other formats settle (a file path and size, or
  the URL of the Google Slides deck).
\<close>

record export_world =
  tts :: tts_world
  renderer :: render_world
  video :: video_world
  cwd :: string
  export_Date_now :: string
  videoFile :: "real option"
  generatePresentation :: "error + string \<times> real"
  convertToPDF :: "error + string \<times> real"
  convertToHTML :: "error + string \<times> real"
  googleConfigured :: bool
  extractPresentationData :: "error option"
  createGoogleSlidesPresentation :: "error + string"

subsection \<open>The state\<close>

text \<open>
  The mutable state: the export records of the storage, the job map of the assembly
  service, the lines \<^verbatim>\<open>Job <id>: <progress>% - <status>\<close> that \<^verbatim>\<open>updateJobProgress\<close>
  prints (each as the triple of its job id, progress and status), the requests sent to
  the speech API, and the table \<^verbatim>\<open>VIDEO_QUALITY_PRESETS\<close>, whose entries the export
  function assigns to.
\<close>

record server =
  exports :: "string \<rightharpoonup> Export"
  jobProgress :: "string \<rightharpoonup> VideoProgress"
  console :: "(string \<times> real \<times> string) list"
  sent :: "speech_request list"
  presets :: "quality \<Rightarrow> VideoQualitySettings"

section \<open>videoAssembly.ts: the validators\<close>

text \<open>The compatibility table and the fallback table, as the object literals list them.\<close>

definition CODEC_CONTAINER_COMPATIBILITY :: "(string \<times> string list) list" where
  "CODEC_CONTAINER_COMPATIBILITY =
     [(''mp4'', [''libx264'', ''libx265'', ''h264_nvenc'']),
      (''avi'', [''libxvid'', ''mjpeg'']),
      (''mov'', [''libx264'', ''libx265'', ''h264_nvenc'', ''prores'']),
      (''mkv'', [''libx264'', ''libx265'', ''h264_nvenc''])]"

text \<open>A fallback is the pair \<open>(videoCodec, format)\<close>.\<close>

definition SAFE_CODEC_FALLBACKS :: "(string \<times> (string \<times> string)) list" where
  "SAFE_CODEC_FALLBACKS =
     [(''avi'', (''libxvid'', ''avi'')),
      (''default'', (''libx264'', ''mp4''))]"

definition SAFE_CODEC_FALLBACKS_default :: "string \<times> string" where
  "SAFE_CODEC_FALLBACKS_default = (''libx264'', ''mp4'')"

definition VIDEO_QUALITY_PRESETS :: "quality \<Rightarrow> VideoQualitySettings" where
  "VIDEO_QUALITY_PRESETS q =
     (case q of
        high \<Rightarrow>
          \<lparr>videoCodec = Some ''libx264'', audioCodec = Some ''aac'', videoBitrate = None,
           audioBitrate = Some ''192k'', crf = Some 18, preset = Some ''slow'',
           format = Some ''mp4'', resolution = Some \<lparr>width = 1920, height = 1080\<rparr>\<rparr>
      | medium \<Rightarrow>
          \<lparr>videoCodec = Some ''libx264'', audioCodec = Some ''aac'', videoBitrate = None,
           audioBitrate = Some ''128k'', crf = Some 23, preset = Some ''medium'',
           format = Some ''mp4'', resolution = Some \<lparr>width = 1920, height = 1080\<rparr>\<rparr>
      | low \<Rightarrow>
          \<lparr>videoCodec = Some ''libx264'', audioCodec = Some ''aac'', videoBitrate = None,
           audioBitrate = Some ''128k'', crf = Some 28, preset = Some ''fast'',
           format = Some ''mp4'', resolution = Some \<lparr>width = 1280, height = 720\<rparr>\<rparr>)"

text \<open>
  \<^verbatim>\<open>SAFE_CODEC_FALLBACKS[format] || SAFE_CODEC_FALLBACKS.default\<close>, then the spread
  \<^verbatim>\<open>{...settings, videoCodec: fallback.videoCodec, format: fallback.format}\<close>. A value
  inherited from \<^verbatim>\<open>Object.prototype\<close> is truthy and has neither field.
\<close>

definition use_fallback :: "VideoQualitySettings \<Rightarrow> string \<Rightarrow> VideoQualitySettings" where
  "use_fallback settings fmt =
     (case lookup_property SAFE_CODEC_FALLBACKS fmt of
        Own fallback \<Rightarrow> settings\<lparr>videoCodec := Some (fst fallback), format := Some (snd fallback)\<rparr>
      | Undefined \<Rightarrow> settings\<lparr>videoCodec := Some (fst SAFE_CODEC_FALLBACKS_default),
                              format := Some (snd SAFE_CODEC_FALLBACKS_default)\<rparr>
      | Inherited \<Rightarrow> settings\<lparr>videoCodec := None, format := None\<rparr>)"

text \<open>
  \<^verbatim>\<open>validateCodecContainerCompatibility\<close>. The test
  \<^verbatim>\<open>!compatibleCodecs || !compatibleCodecs.includes(codec)\<close> calls \<^verbatim>\<open>includes\<close> on
  whatever the lookup returned: on an inherited property there is no such method and the
  call throws a \<^verbatim>\<open>TypeError\<close>.
\<close>

definition validateCodecContainerCompatibility ::
  "VideoQualitySettings \<Rightarrow> error + VideoQualitySettings" where
  "validateCodecContainerCompatibility settings =
     (let fmt = or_default (format settings) ''mp4'';
          codec = or_default (videoCodec settings) ''libx264''
      in case lookup_property CODEC_CONTAINER_COMPATIBILITY fmt of
           Undefined \<Rightarrow> Inr (use_fallback settings fmt)
         | Inherited \<Rightarrow> Inl (TypeError ''compatibleCodecs.includes is not a function'')
         | Own compatibleCodecs \<Rightarrow>
             if codec \<notin> set compatibleCodecs then Inr (use_fallback settings fmt)
             else Inr settings)"

text \<open>
  A profile is compatible when its container (\<^verbatim>\<open>format || 'mp4'\<close>) has a list in
  the compatibility table and its codec (\<^verbatim>\<open>videoCodec || 'libx264'\<close>) is in that list.
\<close>

definition compatible :: "VideoQualitySettings \<Rightarrow> bool" where
  "compatible settings =
     (case lookup_property CODEC_CONTAINER_COMPATIBILITY (or_default (format settings) ''mp4'') of
        Own compatibleCodecs \<Rightarrow> or_default (videoCodec settings) ''libx264'' \<in> set compatibleCodecs
      | Undefined \<Rightarrow> False
      | Inherited \<Rightarrow> False)"

definition supportedTransitions :: "string list" where
  "supportedTransitions = [''none'', ''crossfade'', ''fade-to-black'']"

definition validateTransitionSettings :: "TransitionSettings \<Rightarrow> TransitionSettings" where
  "validateTransitionSettings transitionSettings =
     (if type transitionSettings \<notin> set supportedTransitions
      then transitionSettings\<lparr>type := ''crossfade''\<rparr>
      else transitionSettings)"

section \<open>tts.ts: the narration synthesizer\<close>

definition maxRetries :: nat where
  "maxRetries = 3"

definition new_Error :: "string \<Rightarrow> thrown" where
  "new_Error m =
     \<lparr>instanceofError = True, thrown_status = None, thrown_code = None, thrown_message = Some m\<rparr>"

text \<open>\<^verbatim>\<open>error.message?.includes(s)\<close>.\<close>

definition message_includes :: "thrown \<Rightarrow> string \<Rightarrow> bool" where
  "message_includes e s = (case thrown_message e of None \<Rightarrow> False | Some m \<Rightarrow> includes_str m s)"

definition isRateLimitError :: "thrown \<Rightarrow> bool" where
  "isRateLimitError e \<longleftrightarrow>
     thrown_status e = Some 429 \<or> thrown_code e = Some ''rate_limit_exceeded'' \<or>
     message_includes e ''rate_limit_exceeded'' \<or> message_includes e ''Rate limit'' \<or>
     message_includes e ''rate limit''"

text \<open>\<^verbatim>\<open>error instanceof Error ? error.message : 'Unknown error'\<close> on a caught value.\<close>

definition message_of :: "thrown \<Rightarrow> string" where
  "message_of e =
     (if instanceofError e then (case thrown_message e of None \<Rightarrow> ''undefined'' | Some m \<Rightarrow> m)
      else ''Unknown error'')"

text \<open>
  The \<^verbatim>\<open>try\<close> block of \<^verbatim>\<open>generateAudioWithRetry\<close> after the request has been sent.
\<close>

definition write_audio :: "tts_attempt \<Rightarrow> string \<Rightarrow> thrown + string" where
  "write_audio a path =
     (case rejects a of
        Some e \<Rightarrow> Inl e
      | None \<Rightarrow>
          if \<not> audioExists a then Inl (new_Error ''Audio file was not created'')
          else if audioSize a = 0 then Inl (new_Error ''Generated audio file is empty'')
          else Inr path)"

text \<open>
  \<^verbatim>\<open>generateAudioWithRetry\<close>. The state is the list of requests sent to the speech API
  so far.
\<close>

function generateAudioWithRetry ::
  "tts_world \<Rightarrow> speech_request list \<Rightarrow> jsstring \<Rightarrow> string \<Rightarrow> string \<Rightarrow> string \<Rightarrow> string \<Rightarrow> nat
     \<Rightarrow> speech_request list \<times> (error + string)" where
  "generateAudioWithRetry w requests text voice' model' format' fileName attempt =
     (let truncatedText = (if length text > 4000 then take 4000 text @ utf16 ''...'' else text);
          requests' = requests @ [\<lparr>model = model', voice = voice', input = truncatedText,
                                   response_format = format'\<rparr>]
      in case write_audio (speech_create w (length requests))
                (path_join (tempDir w) (fileName @ ''.'' @ format')) of
           Inr path \<Rightarrow> (requests', Inr path)
         | Inl e \<Rightarrow>
             if isRateLimitError e \<and> attempt < maxRetries
             then generateAudioWithRetry w requests' text voice' model' format' fileName
                    (attempt + 1)
             else if message_includes e ''rate_limit_exceeded'' \<or> thrown_status e = Some 429
             then (requests',
                   Inl (Error ''OpenAI TTS rate limit exceeded. Please try again in a few minutes.''))
             else (requests', Inl (Error (''TTS generation failed: '' @ message_of e))))"
  by pat_completeness auto
termination
  by (relation "measure (\<lambda>(w, requests, text, voice', model', format', fileName, attempt).
                  maxRetries - attempt)") auto

declare generateAudioWithRetry.simps [simp del]

definition getAudioDuration :: "(string + real option) \<Rightarrow> error + real" where
  "getAudioDuration probed =
     (case probed of
        Inl err \<Rightarrow> Inl (Error (''Failed to get audio duration: '' @ err))
      | Inr None \<Rightarrow> Inl (Error ''Unable to determine audio duration'')
      | Inr (Some d) \<Rightarrow> Inr d)"

text \<open>
  \<^verbatim>\<open>generateSlideNarration\<close>; \<open>now\<close> is the text of \<^verbatim>\<open>Date.now()\<close> in the file name.
\<close>

definition generateSlideNarration ::
  "tts_world \<Rightarrow> speech_request list \<Rightarrow> string \<Rightarrow> string \<Rightarrow> jsstring \<Rightarrow> string \<Rightarrow> string \<Rightarrow> string
     \<Rightarrow> speech_request list \<times> (error + TTSResult)" where
  "generateSlideNarration w requests now slideId' text voice' model' format' =
     (if text = [] \<or> length (trim text) = 0
      then (requests, Inl (Error ''No text provided for narration''))
      else
        case generateAudioWithRetry w requests text voice' model' format'
               (''slide_'' @ slideId' @ ''_'' @ now) 1 of
          (requests', Inl e) \<Rightarrow>
            (requests', Inl (Error (''Narration generation failed: '' @ message e)))
        | (requests', Inr path) \<Rightarrow>
            (case getAudioDuration (ffprobe w path) of
               Inl e \<Rightarrow> (requests', Inl (Error (''Narration generation failed: '' @ message e)))
             | Inr d \<Rightarrow>
                 (requests', Inr \<lparr>TTSResult.audioPath = path, TTSResult.duration = d\<rparr>)))"

text \<open>
  The body of the loop of \<^verbatim>\<open>generatePresentationNarration\<close> for the slide at index
  \<open>i\<close>: the slide is skipped (\<^verbatim>\<open>continue\<close>), or its clip is pushed to \<^verbatim>\<open>results\<close>, or
  the caught error is pushed to \<^verbatim>\<open>errors\<close> with the slide id.
\<close>

datatype slide_outcome =
    Skipped
  | Narrated SlideNarrationResult
  | Failed string string

definition narrationText :: "Slide \<Rightarrow> jsstring" where
  "narrationText slide =
     (if trim (speakerNotes slide) = []
      then title slide @ utf16 ''. '' @ join (utf16 ''. '') (bulletPoints slide)
      else trim (speakerNotes slide))"

definition narrate_slide ::
  "tts_world \<Rightarrow> speech_request list \<Rightarrow> nat \<Rightarrow> Slide \<Rightarrow> string \<Rightarrow> string \<Rightarrow> string
     \<Rightarrow> speech_request list \<times> slide_outcome" where
  "narrate_slide w requests i slide voice' model' format' =
     (if narrationText slide = [] \<or> length (narrationText slide) < 5 then (requests, Skipped)
      else
        case generateSlideNarration w requests (Date_now w i) (id' slide) (narrationText slide)
               voice' model' format' of
          (requests', Inr result) \<Rightarrow>
            (requests', Narrated \<lparr>slideId = id' slide, audioPath = TTSResult.audioPath result,
                                  duration = TTSResult.duration result\<rparr>)
        | (requests', Inl e) \<Rightarrow> (requests', Failed (id' slide) (message e)))"

text \<open>The loop: \<open>i\<close> is the index of the first slide of the list.\<close>

fun narration_loop ::
  "tts_world \<Rightarrow> string \<Rightarrow> string \<Rightarrow> string \<Rightarrow> nat \<Rightarrow> Slide list
     \<Rightarrow> speech_request list \<times> SlideNarrationResult list \<times> (string \<times> string) list
     \<Rightarrow> speech_request list \<times> SlideNarrationResult list \<times> (string \<times> string) list" where
  "narration_loop w voice' model' format' i [] acc = acc"
| "narration_loop w voice' model' format' i (slide # rest) (requests, results, errors) =
     (case narrate_slide w requests i slide voice' model' format' of
        (requests', Skipped) \<Rightarrow>
          narration_loop w voice' model' format' (i + 1) rest (requests', results, errors)
      | (requests', Narrated r) \<Rightarrow>
          narration_loop w voice' model' format' (i + 1) rest (requests', results @ [r], errors)
      | (requests', Failed sid e) \<Rightarrow>
          narration_loop w voice' model' format' (i + 1) rest
            (requests', results, errors @ [(sid, e)]))"

definition generatePresentationNarration ::
  "tts_world \<Rightarrow> speech_request list \<Rightarrow> Slide list \<Rightarrow> string \<Rightarrow> string \<Rightarrow> string
     \<Rightarrow> speech_request list \<times> (error + SlideNarrationResult list)" where
  "generatePresentationNarration w requests slides voice' model' format' =
     (if slides = [] then (requests, Inl (Error ''No slides provided for narration''))
      else
        case narration_loop w voice' model' format' 0 slides (requests, [], []) of
          (requests', results, errors) \<Rightarrow>
            if length results = 0 \<and> length errors > 0
            then (requests', Inl (Error (''Failed to generate any narration. Errors: '' @
                                          join '', '' (map snd errors))))
            else (requests', Inr results))"

text \<open>
  What happened to each slide, in order: the outcomes of the loop body along the run,
  the clips among them and the failures among them.
\<close>

fun slide_outcomes ::
  "tts_world \<Rightarrow> string \<Rightarrow> string \<Rightarrow> string \<Rightarrow> nat \<Rightarrow> Slide list \<Rightarrow> speech_request list
     \<Rightarrow> slide_outcome list" where
  "slide_outcomes w voice' model' format' i [] requests = []"
| "slide_outcomes w voice' model' format' i (slide # rest) requests =
     snd (narrate_slide w requests i slide voice' model' format') #
     slide_outcomes w voice' model' format' (i + 1) rest
       (fst (narrate_slide w requests i slide voice' model' format'))"

fun clips :: "slide_outcome list \<Rightarrow> SlideNarrationResult list" where
  "clips [] = []"
| "clips (Narrated r # os) = r # clips os"
| "clips (_ # os) = clips os"

fun failures :: "slide_outcome list \<Rightarrow> (string \<times> string) list" where
  "failures [] = []"
| "failures (Failed sid e # os) = (sid, e) # failures os"
| "failures (_ # os) = failures os"

text \<open>The text that \<^verbatim>\<open>generateAudioWithRetry\<close> puts into its request.\<close>

definition truncated :: "jsstring \<Rightarrow> jsstring" where
  "truncated text = (if length text > 4000 then take 4000 text @ utf16 ''...'' else text)"

section \<open>storage.ts: the export records\<close>

definition updateExportStatus ::
  "(string \<rightharpoonup> Export) \<Rightarrow> string \<Rightarrow> bool \<Rightarrow> string option \<Rightarrow> string option
     \<Rightarrow> (string \<rightharpoonup> Export)" where
  "updateExportStatus store eid ready url errorMessage =
     (case store eid of
        None \<Rightarrow> store
      | Some exportData \<Rightarrow>
          store(eid \<mapsto> exportData\<lparr>
            isReady := ready,
            fileUrl := (if truthy url then url else fileUrl exportData),
            error := (if truthy errorMessage then errorMessage else None),
            Export.progress := (if ready then 100
                                else if truthy errorMessage then Export.progress exportData
                                else Export.progress exportData),
            phase := (if ready then Some ''complete''
                      else if truthy errorMessage then Some ''error''
                      else phase exportData)\<rparr>))"

text \<open>The fourth argument, the message, is not stored.\<close>

definition updateExportProgress ::
  "(string \<rightharpoonup> Export) \<Rightarrow> string \<Rightarrow> real \<Rightarrow> string option \<Rightarrow> string option \<Rightarrow> string option
     \<Rightarrow> (string \<rightharpoonup> Export)" where
  "updateExportProgress store eid p ph msg err =
     (case store eid of
        None \<Rightarrow> store
      | Some exportData \<Rightarrow>
          store(eid \<mapsto> exportData\<lparr>
            Export.progress := max 0 (min 100 p),
            phase := (if truthy ph then ph else phase exportData),
            error := (if truthy err then err else error exportData)\<rparr>))"

text \<open>\<^verbatim>\<open>fileSize || exportData.fileSize\<close>: an absent size and the size 0 are falsy.\<close>

definition updateExportFilePath ::
  "(string \<rightharpoonup> Export) \<Rightarrow> string \<Rightarrow> string \<Rightarrow> real option \<Rightarrow> (string \<rightharpoonup> Export)" where
  "updateExportFilePath store eid path size' =
     (case store eid of
        None \<Rightarrow> store
      | Some exportData \<Rightarrow>
          store(eid \<mapsto> exportData\<lparr>
            filePath := Some path,
            fileSize := (if size' \<noteq> None \<and> size' \<noteq> Some 0 then size'
                         else fileSize exportData)\<rparr>))"

section \<open>The slide renderer: the batch operation\<close>

text \<open>
  The loop of \<^verbatim>\<open>renderPresentation\<close> over the slide ids; the HTML of a slide is an
  argument of the browser and is not modelled.
\<close>

fun render_loop ::
  "render_world \<Rightarrow> nat \<Rightarrow> string list
     \<Rightarrow> PresentationRenderResult list \<times> (string \<times> string) list
     \<Rightarrow> PresentationRenderResult list \<times> (string \<times> string) list" where
  "render_loop w i [] acc = acc"
| "render_loop w i (sid # rest) (results, errors) =
     (case render_slide w i of
        Inr path \<Rightarrow>
          render_loop w (i + 1) rest
            (results @ [\<lparr>PresentationRenderResult.slideId = sid,
                          PresentationRenderResult.imagePath = path,
                          PresentationRenderResult.width = 1920,
                          PresentationRenderResult.height = 1080\<rparr>], errors)
      | Inl e \<Rightarrow> render_loop w (i + 1) rest (results, errors @ [(sid, message e)]))"

definition renderPresentation ::
  "render_world \<Rightarrow> string list \<Rightarrow> error + PresentationRenderResult list" where
  "renderPresentation w slideIds =
     (if slideIds = [] then Inl (Error ''No slides provided for rendering'')
      else
        case launch w of
          Some e \<Rightarrow> Inl e
        | None \<Rightarrow>
            (case render_loop w 0 slideIds ([], []) of
               (results, errors) \<Rightarrow>
                 if length results = 0 \<and> length errors > 0
                 then Inl (Error (''Failed to render any slides. Errors: '' @
                                   join '', '' (map snd errors)))
                 else Inr results))"

definition renderPresentationFromSlides ::
  "render_world \<Rightarrow> Slide list \<Rightarrow> error + PresentationRenderResult list" where
  "renderPresentationFromSlides w slides =
     (if slides = [] then Inl (Error ''No slides provided for rendering'')
      else renderPresentation w (map id' slides))"

section \<open>videoAssembly.ts: the assembly service\<close>

definition updateJobProgress :: "video_world \<Rightarrow> server \<Rightarrow> string \<Rightarrow> real \<Rightarrow> string \<Rightarrow> server" where
  "updateJobProgress w st jobId p status' =
     st\<lparr>jobProgress := (jobProgress st)(jobId \<mapsto> \<lparr>progress = p, status = status'\<rparr>),
        console := console st @ [(jobId, p, status')],
        exports := (if has_storage w
                    then updateExportProgress (exports st) jobId p (Some ''assembly'')
                           (Some status') None
                    else exports st)\<rparr>"

definition retryableErrors :: "string list" where
  "retryableErrors =
     [''EPIPE'', ''ECONNRESET'', ''ETIMEDOUT'', ''Timeout'', ''ffmpeg exited with code 1'',
      ''Connection lost'']"

text \<open>
  \<^verbatim>\<open>isRetryableError\<close>: the message or the name of the error contains one of the
  signatures. Every error it is applied to is an \<^verbatim>\<open>Error\<close> instance.
\<close>

definition isRetryableError :: "error \<Rightarrow> bool" where
  "isRetryableError e \<longleftrightarrow>
     list_ex (\<lambda>errType. includes_str (message e) errType \<or> includes_str (error_name e) errType)
       retryableErrors"

text \<open>
  \<^verbatim>\<open>retryOperation\<close>: \<open>operation k\<close> is what the \<open>k\<close>-th call of the operation does, the
  progress it reports and how it settles. The result collects the progress of every
  attempt made. The deletion of the partial output before a retry is an effect on the
  file system and is not modelled. When the loop body never runs, the final
  \<^verbatim>\<open>throw lastError!\<close> throws \<^verbatim>\<open>undefined\<close>.
\<close>

function retryOperation ::
  "(nat \<Rightarrow> 'p list \<times> (error + 'a)) \<Rightarrow> nat \<Rightarrow> nat \<Rightarrow> 'p list \<times> (error + 'a)" where
  "retryOperation operation maxRetries' attempt =
     (if attempt \<le> maxRetries' then
        (case operation attempt of
           (reported, Inr v) \<Rightarrow> (reported, Inr v)
         | (reported, Inl lastError) \<Rightarrow>
             if \<not> isRetryableError lastError \<or> attempt = maxRetries'
             then (reported, Inl lastError)
             else (case retryOperation operation maxRetries' (attempt + 1) of
                     (later, r) \<Rightarrow> (reported @ later, r)))
      else ([], Inl NonError))"
  by pat_completeness auto
termination
  by (relation "measure (\<lambda>(operation, maxRetries', attempt). Suc maxRetries' - attempt)") auto

declare retryOperation.simps [simp del]

text \<open>
  \<^verbatim>\<open>createVideoWithImageAndAudio\<close>: the profile is validated first; each ffmpeg run
  reports \<^verbatim>\<open>Math.min(progress.percent || 0, 100)\<close> with the phase \<^verbatim>\<open>encoding\<close> to the
  callback. The result lists what the callback received. The ffmpeg options built from
  the validated profile are arguments of the external process and are not modelled.
\<close>

definition createVideoWithImageAndAudio ::
  "slide_world \<Rightarrow> string \<Rightarrow> VideoQualitySettings \<Rightarrow> (real \<times> string) list \<times> (error + string)" where
  "createVideoWithImageAndAudio sw outputPath qualitySettings =
     (case validateCodecContainerCompatibility qualitySettings of
        Inl e \<Rightarrow> ([], Inl e)
      | Inr validatedSettings \<Rightarrow>
          retryOperation
            (\<lambda>k. (map (\<lambda>p. (min (percent_or_0 p) 100, ''encoding'')) (percents (encode sw k)),
                  case failure (encode sw k) of
                    Some err \<Rightarrow> Inl (Error (''Video encoding failed: '' @ err))
                  | None \<Rightarrow> Inr outputPath))
            3 1)"

definition createSlideVideo ::
  "slide_world \<Rightarrow> string \<Rightarrow> string \<Rightarrow> string \<Rightarrow> VideoQualitySettings
     \<Rightarrow> (real \<times> string) list \<times> (error + VideoAssemblyResult)" where
  "createSlideVideo sw imagePath' audioPath' outputPath qualitySettings =
     (if \<not> imageExists sw then ([], Inl (Error (''Image file not found: '' @ imagePath')))
      else if \<not> narrationExists sw
      then ([], Inl (Error (''Audio file not found: '' @ audioPath')))
      else
        case getAudioDuration (probe sw) of
          Inl e \<Rightarrow> ([], Inl (Error (''Video creation failed: '' @ message e)))
        | Inr audioDuration \<Rightarrow>
            (case createVideoWithImageAndAudio sw outputPath qualitySettings of
               (reported, Inl e) \<Rightarrow>
                 (reported, Inl (Error (''Video creation failed: '' @ message e)))
             | (reported, Inr videoPath') \<Rightarrow>
                 if \<not> outputExists sw
                 then (reported, Inl (Error ''Video creation failed: Video file was not created''))
                 else if outputSize sw = 0
                 then (reported,
                       Inl (Error ''Video creation failed: Generated video file is empty''))
                 else (reported, Inr \<lparr>VideoAssemblyResult.videoPath = videoPath',
                                       VideoAssemblyResult.duration = audioDuration\<rparr>)))"

text \<open>
  \<^verbatim>\<open>reencodeVideo\<close>: the profile is validated inside the promise, so a failure of the
  validator rejects it; the run reports no progress to the job.
\<close>

definition reencodeVideo ::
  "video_world \<Rightarrow> string \<Rightarrow> string \<Rightarrow> VideoQualitySettings \<Rightarrow> error + string" where
  "reencodeVideo w inputPath outputPath qualitySettings =
     (case validateCodecContainerCompatibility qualitySettings of
        Inl e \<Rightarrow> Inl e
      | Inr validatedSettings \<Rightarrow>
          (case failure (final_run w) of
             Some err \<Rightarrow> Inl (Error (''Video re-encoding failed: '' @ err))
           | None \<Rightarrow> Inr outputPath))"

text \<open>
  \<^verbatim>\<open>concatenateVideosWithTransitions\<close>, with \<^verbatim>\<open>concatenateVideosSimple\<close> for the type
  \<^verbatim>\<open>none\<close>: both validate the profile inside the promise, run ffmpeg once, hand
  \<^verbatim>\<open>progress.percent || 0\<close> of each progress event to the callback, and reject with the
  same message. The concat list, the filter graph and the ffmpeg options are arguments of
  the external process and are not modelled. The result lists what the callback received.
\<close>

definition concatenateVideosWithTransitions ::
  "video_world \<Rightarrow> string list \<Rightarrow> string \<Rightarrow> TransitionSettings \<Rightarrow> VideoQualitySettings
     \<Rightarrow> real list \<times> (error + string)" where
  "concatenateVideosWithTransitions w videoPaths outputPath transitionSettings qualitySettings =
     (case validateCodecContainerCompatibility qualitySettings of
        Inl e \<Rightarrow> ([], Inl e)
      | Inr validatedSettings \<Rightarrow>
          (map percent_or_0 (percents (final_run w)),
           case failure (final_run w) of
             Some err \<Rightarrow> Inl (Error (''Video concatenation failed: '' @ err))
           | None \<Rightarrow> Inr outputPath))"

text \<open>
  The loop of step 1 of \<^verbatim>\<open>assemblePresentationVideo\<close>: \<open>n\<close> is \<^verbatim>\<open>slides.length\<close>, \<open>i\<close>
  the index of the first slide of the list, and the accumulator holds the state,
  \<^verbatim>\<open>slideVideos\<close> and \<^verbatim>\<open>totalDuration\<close>. The progress callback of slide \<open>i\<close> writes
  \<^verbatim>\<open>Math.floor((i / n) * 30 + (slideProgress / n) * 30)\<close>. Every operator is the
  rounded operation on doubles, applied in the order of the source.
\<close>

fun slide_loop ::
  "video_world \<Rightarrow> string \<Rightarrow> VideoQualitySettings \<Rightarrow> nat \<Rightarrow> nat \<Rightarrow> SlideVideoInput list
     \<Rightarrow> server \<times> string list \<times> real \<Rightarrow> server \<times> (error + string list \<times> real)" where
  "slide_loop w jobId qualitySettings n i [] (st, slideVideos, totalDuration') =
     (st, Inr (slideVideos, totalDuration'))"
| "slide_loop w jobId qualitySettings n i (slide # rest) (st, slideVideos, totalDuration') =
     (let st1 = updateJobProgress w st jobId
                  (real_of_int \<lfloor>dmul (ddiv (real i) (real n)) 30\<rfloor>)
                  ''creating-slide-videos'';
          slideVideoPath = path_join (videoTempDir w)
                  (''slide_'' @ string_of_nat i @ ''_'' @ video_Date_now w i @ ''.mp4'')
      in case createSlideVideo (slide_at w i) (imagePath slide) (audioPath slide) slideVideoPath
                qualitySettings of
           (reported, result) \<Rightarrow>
             (let st2 = fold (\<lambda>(slideProgress, phase') s.
                               updateJobProgress w s jobId
                                 (real_of_int
                                    \<lfloor>dadd (dmul (ddiv (real i) (real n)) 30)
                                       (dmul (ddiv slideProgress (real n)) 30)\<rfloor>)
                                 (''creating-slide-'' @ string_of_nat (i + 1) @ ''-'' @ phase'))
                          reported st1
              in case result of
                   Inl e \<Rightarrow> (st2, Inl e)
                 | Inr r \<Rightarrow>
                     slide_loop w jobId qualitySettings n (i + 1) rest
                       (st2, slideVideos @ [VideoAssemblyResult.videoPath r],
                        dadd totalDuration' (VideoAssemblyResult.duration r))))"

text \<open>
  The \<^verbatim>\<open>try\<close> block of \<^verbatim>\<open>assemblePresentationVideo\<close>. The concatenation callback writes
  \<^verbatim>\<open>30 + Math.floor(progress * 0.7)\<close>, where \<^verbatim>\<open>0.7\<close> is the double nearest to 7/10. The
  deletion of the slide videos is an effect on the file system and is not modelled.
\<close>

definition assemble_try ::
  "video_world \<Rightarrow> server \<Rightarrow> SlideVideoInput list \<Rightarrow> string \<Rightarrow> VideoQualitySettings
     \<Rightarrow> TransitionSettings \<Rightarrow> string \<Rightarrow> server \<times> (error + PresentationVideoResult)" where
  "assemble_try w st slides outputPath qualitySettings validatedTransitions jobId =
     (case slide_loop w jobId qualitySettings (length slides) 0 slides
             (updateJobProgress w st jobId 0 ''processing'', [], 0) of
        (st1, Inl e) \<Rightarrow> (st1, Inl e)
      | (st1, Inr (slideVideos, totalDuration')) \<Rightarrow>
          (let adjustedDuration =
                 (if length slides > 1 \<and> type validatedTransitions \<noteq> ''none''
                  then if type validatedTransitions = ''crossfade''
                       then dsub totalDuration'
                              (dmul (real (length slides - 1)) (duration validatedTransitions))
                       else dadd totalDuration'
                              (dmul (real (length slides - 1)) (duration validatedTransitions))
                  else totalDuration');
               st2 = updateJobProgress w st1 jobId 30 ''concatenating-videos'';
               (st3, final) =
                 (if length slideVideos = 1
                  then (st2, reencodeVideo w (hd slideVideos) outputPath qualitySettings)
                  else
                    case concatenateVideosWithTransitions w slideVideos outputPath
                           validatedTransitions qualitySettings of
                      (reported, r) \<Rightarrow>
                        (fold (\<lambda>p s. updateJobProgress w s jobId
                                        (dadd 30
                                           (real_of_int \<lfloor>dmul p (to_double (7 / 10))\<rfloor>))
                                        ''concatenating-videos'')
                           reported st2, r))
           in case final of
                Inl e \<Rightarrow> (st3, Inl e)
              | Inr finalVideoPath \<Rightarrow>
                  (let st4 = updateJobProgress w st3 jobId 95 ''cleaning-up''
                   in if \<not> finalExists w
                      then (st4, Inl (Error ''Final presentation video was not created''))
                      else if finalSize w = 0
                      then (st4, Inl (Error ''Generated presentation video is empty''))
                      else (updateJobProgress w st4 jobId 100 ''completed'',
                            Inr \<lparr>videoPath = finalVideoPath,
                                 totalDuration = adjustedDuration\<rparr>))))"

text \<open>
  \<^verbatim>\<open>assemblePresentationVideo\<close>: the \<^verbatim>\<open>catch\<close> block writes the progress 0 with the
  status \<^verbatim>\<open>error\<close> and throws the wrapped error.
\<close>

definition assemblePresentationVideo ::
  "video_world \<Rightarrow> server \<Rightarrow> SlideVideoInput list \<Rightarrow> string \<Rightarrow> VideoQualitySettings
     \<Rightarrow> TransitionSettings \<Rightarrow> string \<Rightarrow> server \<times> (error + PresentationVideoResult)" where
  "assemblePresentationVideo w st slides outputPath qualitySettings transitionSettings jobId =
     (let validatedTransitions = validateTransitionSettings transitionSettings
      in if slides = [] then (st, Inl (Error ''No slides provided for video assembly''))
         else
           case assemble_try w st slides outputPath qualitySettings validatedTransitions jobId of
             (st', Inr result) \<Rightarrow> (st', Inr result)
           | (st', Inl e) \<Rightarrow>
               (updateJobProgress w st' jobId 0 ''error'',
                Inl (Error (''Video assembly failed: '' @ message e))))"

section \<open>routes.ts: the export orchestration\<close>

text \<open>
  The pairing loop of \<^verbatim>\<open>processVideoExport\<close>: for each index below
  \<^verbatim>\<open>Math.min(slideImages.length, narrationResults.length)\<close>, the image at that index is
  joined with the first narration of the same slide id, if there is one.
\<close>

definition pair_step ::
  "PresentationRenderResult list \<Rightarrow> SlideNarrationResult list \<Rightarrow> nat \<Rightarrow> SlideVideoInput list
     \<Rightarrow> SlideVideoInput list" where
  "pair_step slideImages narrationResults i slideVideoInputs =
     (case find (\<lambda>n. slideId n = PresentationRenderResult.slideId (slideImages ! i))
             narrationResults of
        Some narration \<Rightarrow>
          slideVideoInputs @
            [\<lparr>imagePath = PresentationRenderResult.imagePath (slideImages ! i),
              audioPath = SlideNarrationResult.audioPath narration,
              duration = SlideNarrationResult.duration narration\<rparr>]
      | None \<Rightarrow> slideVideoInputs)"

definition pair_slides ::
  "PresentationRenderResult list \<Rightarrow> SlideNarrationResult list \<Rightarrow> SlideVideoInput list" where
  "pair_slides slideImages narrationResults =
     fold (pair_step slideImages narrationResults)
       [0 ..< min (length slideImages) (length narrationResults)] []"

text \<open>A write of the export function to the progress of its record.\<close>

definition report :: "server \<Rightarrow> string \<Rightarrow> real \<Rightarrow> string \<Rightarrow> string \<Rightarrow> server" where
  "report st exportId p ph msg =
     st\<lparr>exports := updateExportProgress (exports st) exportId p (Some ph) (Some msg) None\<rparr>"

text \<open>
  \<^verbatim>\<open>processVideoExport\<close>. Its \<^verbatim>\<open>catch\<close> block rethrows what it caught. The assignment
  \<^verbatim>\<open>qualitySettings.format = videoOptions.format\<close> writes into the preset table. The
  deletion of the temporary files at the end is not modelled.
\<close>

definition processVideoExport ::
  "export_world \<Rightarrow> server \<Rightarrow> string \<Rightarrow> presentation \<Rightarrow> VideoExportOptions
     \<Rightarrow> server \<times> (error + string)" where
  "processVideoExport w st exportId pres options =
     (let quality' = (case quality options of None \<Rightarrow> medium | Some q \<Rightarrow> q);
          voice' = or_default (VideoExportOptions.voice options) ''alloy'';
          ttsModel' = or_default (ttsModel options) ''tts-1'';
          transition' = (case transition options of
                           None \<Rightarrow> \<lparr>type = ''crossfade'', duration = 1 / 2\<rparr>
                         | Some t \<Rightarrow> t);
          format' = or_default (VideoExportOptions.format options) ''mp4'';
          slides = presentation_slides pres
      in if slides = []
         then (st, Inl (Error ''No slides found in presentation for video export''))
         else
           let st1 = report st exportId 15 ''tts'' ''Generating audio narration...''
           in case generatePresentationNarration (tts w) (sent st1) slides voice' ttsModel' ''mp3'' of
                (requests, Inl e) \<Rightarrow> (st1\<lparr>sent := requests\<rparr>, Inl e)
              | (requests, Inr narrationResults) \<Rightarrow>
                  if narrationResults = []
                  then (st1\<lparr>sent := requests\<rparr>,
                        Inl (Error ''Failed to generate any audio narration for slides''))
                  else
                    let st2 = report (st1\<lparr>sent := requests\<rparr>) exportId 33 ''tts''
                                (''Generated narration for '' @
                                 string_of_nat (length narrationResults) @ '' slides'');
                        st3 = report st2 exportId 40 ''rendering'' ''Rendering slides to images...''
                    in case renderPresentationFromSlides (renderer w) slides of
                         Inl e \<Rightarrow> (st3, Inl e)
                       | Inr slideImages \<Rightarrow>
                           if slideImages = []
                           then (st3, Inl (Error ''Failed to render any slide images''))
                           else
                             let st4 = report st3 exportId 66 ''rendering''
                                         (''Rendered '' @ string_of_nat (length slideImages) @
                                          '' slide images'');
                                 st5 = report st4 exportId 70 ''assembly''
                                         ''Assembling final video...'';
                                 slideVideoInputs = pair_slides slideImages narrationResults
                             in if slideVideoInputs = []
                                then (st5, Inl (Error
                                       ''Failed to match slide images with narration audio''))
                                else
                                  let outputPath =
                                        path_join (cwd w)
                                          (''uploads/videos/presentation_'' @
                                           presentation_id pres @ ''_'' @ export_Date_now w @
                                           ''.'' @ format');
                                      qualitySettings =
                                        (if format' \<noteq> ''mp4''
                                         then (presets st5 quality')\<lparr>format := Some format'\<rparr>
                                         else presets st5 quality');
                                      st6 = st5\<lparr>presets := (presets st5)
                                                   (quality' := qualitySettings)\<rparr>
                                  in case assemblePresentationVideo (video w) st6 slideVideoInputs
                                            outputPath qualitySettings transition' exportId of
                                       (st7, Inl e) \<Rightarrow> (st7, Inl e)
                                     | (st7, Inr videoResult) \<Rightarrow>
                                         (st7, Inr (videoPath videoResult)))"

text \<open>\<^verbatim>\<open>`/api/exports/${exportId}/download`\<close>.\<close>

definition download_url :: "string \<Rightarrow> string" where
  "download_url exportId = ''/api/exports/'' @ exportId @ ''/download''"

text \<open>
  The \<^verbatim>\<open>switch\<close> of \<^verbatim>\<open>processExportAsync\<close>; the result is \<^verbatim>\<open>fileUrl\<close>.
\<close>

definition convert_export ::
  "export_world \<Rightarrow> server \<Rightarrow> string \<Rightarrow> presentation \<Rightarrow> string \<Rightarrow> VideoExportOptions
     \<Rightarrow> server \<times> (error + string)" where
  "convert_export w st exportId pres format' options =
     (if format' = ''pdf'' then
        (let st1 = report st exportId 70 ''conversion'' ''Converting to PDF...''
         in case convertToPDF w of
              Inl e \<Rightarrow> (st1, Inl e)
            | Inr (path, size') \<Rightarrow>
                (st1\<lparr>exports := updateExportFilePath (exports st1) exportId path (Some size')\<rparr>,
                 Inr (download_url exportId)))
      else if format' = ''html'' then
        (let st1 = report st exportId 70 ''conversion'' ''Converting to HTML...''
         in case convertToHTML w of
              Inl e \<Rightarrow> (st1, Inl e)
            | Inr (path, size') \<Rightarrow>
                (st1\<lparr>exports := updateExportFilePath (exports st1) exportId path (Some size')\<rparr>,
                 Inr (download_url exportId)))
      else if format' = ''google-slides'' then
        (if \<not> googleConfigured w
         then (st, Inl (Error ''Google Slides integration not configured. Please set ZAPIER_MCP_API_KEY environment variable.''))
         else
           let st1 = report st exportId 70 ''conversion'' ''Creating Google Slides...''
           in case extractPresentationData w of
                Some e \<Rightarrow> (st1, Inl e)
              | None \<Rightarrow>
                  (case createGoogleSlidesPresentation w of
                     Inl e \<Rightarrow> (st1, Inl e)
                   | Inr url \<Rightarrow> (st1, Inr url)))
      else if format' = ''video'' then
        (let st1 = report st exportId 10 ''tts'' ''Starting video export''
         in case processVideoExport w st1 exportId pres options of
              (st2, Inl e) \<Rightarrow> (st2, Inl e)
            | (st2, Inr videoPath') \<Rightarrow>
                (let st3 = st2\<lparr>exports := updateExportFilePath (exports st2) exportId
                                              videoPath' None\<rparr>
                 in (case videoFile w of
                       Some size' \<Rightarrow>
                         st3\<lparr>exports := updateExportFilePath (exports st3) exportId
                                           videoPath' (Some size')\<rparr>
                     | None \<Rightarrow> st3,
                     Inr (download_url exportId))))
      else (st, Inl (Error (''Unsupported export format: '' @ format'))))"

text \<open>
  The \<^verbatim>\<open>try\<close> block of \<^verbatim>\<open>processExportAsync\<close>; \<open>None\<close> stands for absent options.
\<close>

definition export_try ::
  "export_world \<Rightarrow> server \<Rightarrow> string \<Rightarrow> presentation \<Rightarrow> string \<Rightarrow> VideoExportOptions option
     \<Rightarrow> server \<times> (error + unit)" where
  "export_try w st exportId pres format' options =
     (let options' = (case options of
                        None \<Rightarrow> \<lparr>quality = None, voice = None, ttsModel = None,
                                  transition = None, format = None\<rparr>
                      | Some given \<Rightarrow> given);
          finish = (\<lambda>s fileUrl'.
                      let s1 = report s exportId 100 ''completed'' ''Export completed successfully''
                      in (s1\<lparr>exports := updateExportStatus (exports s1) exportId True
                                           (Some fileUrl') None\<rparr>, Inr ()))
      in if format' \<noteq> ''video'' then
           (let st1 = report st exportId 30 ''pptx'' ''Creating master presentation...''
            in case generatePresentation w of
                 Inl e \<Rightarrow> (st1, Inl e)
               | Inr (path, size') \<Rightarrow>
                   if format' = ''pptx''
                   then (st1\<lparr>exports :=
                               updateExportStatus
                                 (updateExportFilePath (exports st1) exportId path (Some size'))
                                 exportId True (Some (download_url exportId)) None\<rparr>,
                         Inr ())
                   else
                     (case convert_export w st1 exportId pres format' options' of
                        (st2, Inl e) \<Rightarrow> (st2, Inl e)
                      | (st2, Inr fileUrl') \<Rightarrow> finish st2 fileUrl'))
         else
           (case convert_export w st exportId pres format' options' of
              (st2, Inl e) \<Rightarrow> (st2, Inl e)
            | (st2, Inr fileUrl') \<Rightarrow> finish st2 fileUrl'))"

text \<open>
  \<^verbatim>\<open>processExportAsync\<close>: the \<^verbatim>\<open>catch\<close> block writes the progress 0 with the phase
  \<^verbatim>\<open>error\<close>, then the error message.
\<close>

definition processExportAsync ::
  "export_world \<Rightarrow> server \<Rightarrow> string \<Rightarrow> presentation \<Rightarrow> string \<Rightarrow> VideoExportOptions option
     \<Rightarrow> server" where
  "processExportAsync w st exportId pres format' options =
     (case export_try w st exportId pres format' options of
        (st', Inr done') \<Rightarrow> st'
      | (st', Inl e) \<Rightarrow>
          (let st1 = report st' exportId 0 ''error'' (''Failed: '' @ message e)
           in st1\<lparr>exports := updateExportStatus (exports st1) exportId False None
                                 (Some (''Error: '' @ message e))\<rparr>))"

section \<open>Example environments and inputs\<close>

definition example_attempt_ok :: tts_attempt where
  "example_attempt_ok = \<lparr>rejects = None, audioExists = True, audioSize = 1024\<rparr>"

definition example_rate_limited :: tts_attempt where
  "example_rate_limited =
     \<lparr>rejects = Some \<lparr>instanceofError = True, thrown_status = Some 429, thrown_code = None,
                       thrown_message = Some ''Too many requests''\<rparr>,
      audioExists = False, audioSize = 0\<rparr>"

definition example_refused :: tts_attempt where
  "example_refused =
     \<lparr>rejects = Some (new_Error ''connection refused''), audioExists = False, audioSize = 0\<rparr>"

definition example_tts_world :: "(nat \<Rightarrow> tts_attempt) \<Rightarrow> tts_world" where
  "example_tts_world attempts =
     \<lparr>tempDir = ''uploads/tts_audio'', Date_now = (\<lambda>i. ''1700000000000''),
      speech_create = attempts, ffprobe = (\<lambda>path. Inr (Some 2))\<rparr>"

definition example_slide :: "string \<Rightarrow> string \<Rightarrow> Slide" where
  "example_slide sid notes =
     \<lparr>id' = sid, title = utf16 ''T'', bulletPoints = [], speakerNotes = utf16 notes\<rparr>"

definition example_slides :: "Slide list" where
  "example_slides = map (\<lambda>sid. example_slide sid ''Hello'') [''s1'', ''s2'', ''s3'', ''s4'', ''s5'']"

definition example_clip :: "string \<Rightarrow> SlideNarrationResult" where
  "example_clip sid =
     \<lparr>slideId = sid, audioPath = ''uploads/tts_audio/slide_'' @ sid @ ''_1700000000000.mp3'',
      duration = 2\<rparr>"

definition example_image :: "string \<Rightarrow> PresentationRenderResult" where
  "example_image sid =
     \<lparr>PresentationRenderResult.slideId = sid,
      PresentationRenderResult.imagePath = ''uploads/slide_images/slide_'' @ sid @ ''.png'',
      PresentationRenderResult.width = 1920, PresentationRenderResult.height = 1080\<rparr>"

definition example_render_world :: "string list \<Rightarrow> nat list \<Rightarrow> render_world" where
  "example_render_world sids failing =
     \<lparr>launch = None,
      render_slide = (\<lambda>i. if i \<in> set failing
                          then Inl (Error ''Slide rendering failed: Navigation timeout'')
                          else Inr (''uploads/slide_images/slide_'' @ sids ! i @ ''.png''))\<rparr>"

definition example_slide_world :: "real option list \<Rightarrow> real \<Rightarrow> slide_world" where
  "example_slide_world ps d =
     \<lparr>imageExists = True, narrationExists = True, probe = Inr (Some d),
      encode = (\<lambda>k. \<lparr>percents = ps, failure = None\<rparr>),
      outputExists = True, outputSize = 2048\<rparr>"

definition example_video_world :: "(nat \<Rightarrow> slide_world) \<Rightarrow> bool \<Rightarrow> video_world" where
  "example_video_world sws created =
     \<lparr>has_storage = True, videoTempDir = ''uploads/videos'',
      video_Date_now = (\<lambda>i. ''1700000000000''), slide_at = sws,
      final_run = \<lparr>percents = [], failure = None\<rparr>,
      finalExists = created, finalSize = 4096\<rparr>"

definition example_export :: Export where
  "example_export =
     \<lparr>Export.id' = ''e1'', presentationId = ''p1'', Export.format = ''video'', fileUrl = None,
      filePath = None, fileSize = None, isReady = False, Export.progress = 0,
      phase = Some ''initializing'', error = None\<rparr>"

definition example_server :: server where
  "example_server =
     \<lparr>exports = [''e1'' \<mapsto> example_export], jobProgress = Map.empty, console = [],
      sent = [], presets = VIDEO_QUALITY_PRESETS\<rparr>"

definition example_input :: "string \<Rightarrow> SlideVideoInput" where
  "example_input sid =
     \<lparr>imagePath = ''uploads/slide_images/slide_'' @ sid @ ''.png'',
      audioPath = ''uploads/tts_audio/slide_'' @ sid @ ''_1700000000000.mp3'', duration = 2\<rparr>"

definition example_export_world :: "tts_world \<Rightarrow> render_world \<Rightarrow> video_world \<Rightarrow> export_world" where
  "example_export_world t r v =
     \<lparr>tts = t, renderer = r, video = v, cwd = ''/app'', export_Date_now = ''1700000000001'',
      videoFile = Some 4096,
      generatePresentation = Inr (''/app/uploads/p1.pptx'', 1000),
      convertToPDF = Inr (''/app/uploads/p1.pdf'', 1000),
      convertToHTML = Inr (''/app/uploads/p1.html'', 1000),
      googleConfigured = False, extractPresentationData = None,
      createGoogleSlidesPresentation = Inr ''https://docs.google.com/presentation/d/1''\<rparr>"

definition example_presentation :: "Slide list \<Rightarrow> presentation" where
  "example_presentation ss =
     \<lparr>presentation_id = ''p1'', presentation_title = ''Talk'', presentation_slides = ss\<rparr>"

text \<open>An export job whose every request to the speech API is refused.\<close>

definition example_refusing_world :: export_world where
  "example_refusing_world =
     example_export_world (example_tts_world (\<lambda>k. example_refused))
       (example_render_world [''s1''] [])
       (example_video_world (\<lambda>i. example_slide_world [] 2) True)"

definition example_talk :: presentation where
  "example_talk = example_presentation [example_slide ''s1'' ''Hello'']"

section \<open>Properties of the validators\<close>

lemma lookup_compat_cases:
  "lookup_property CODEC_CONTAINER_COMPATIBILITY fmt = Own cs \<Longrightarrow>
     fmt \<in> {''mp4'', ''avi'', ''mov'', ''mkv''}"
  by (auto simp: lookup_property_def CODEC_CONTAINER_COMPATIBILITY_def
           split: if_splits option.splits)

text \<open>
  C8. A transition type outside none, crossfade, fade-to-black is replaced by crossfade
  and the duration is kept; a type inside the set passes through unchanged. The function
  has no failing branch: it returns a TransitionSettings for every input.
\<close>

theorem validateTransitionSettings_coerces:
  "(type t \<notin> {''none'', ''crossfade'', ''fade-to-black''} \<longrightarrow>
      validateTransitionSettings t = \<lparr>type = ''crossfade'', duration = duration t\<rparr>) \<and>
   (type t \<in> {''none'', ''crossfade'', ''fade-to-black''} \<longrightarrow>
      validateTransitionSettings t = t)"
  by (simp add: validateTransitionSettings_def supportedTransitions_def)

theorem validateTransitionSettings_coerces_witness:
  "validateTransitionSettings \<lparr>type = ''wipe'', duration = 1 / 2\<rparr>
     = \<lparr>type = ''crossfade'', duration = 1 / 2\<rparr> \<and>
   validateTransitionSettings \<lparr>type = ''slide'', duration = 2\<rparr>
     = \<lparr>type = ''crossfade'', duration = 2\<rparr> \<and>
   validateTransitionSettings \<lparr>type = ''fade-to-black'', duration = 1\<rparr>
     = \<lparr>type = ''fade-to-black'', duration = 1\<rparr>"
  using validateTransitionSettings_coerces [of "\<lparr>type = ''wipe'', duration = 1 / 2\<rparr>"]
        validateTransitionSettings_coerces [of "\<lparr>type = ''slide'', duration = 2\<rparr>"]
        validateTransitionSettings_coerces [of "\<lparr>type = ''fade-to-black'', duration = 1\<rparr>"]
  by simp

lemma lookup_compat_Inherited:
  "lookup_property CODEC_CONTAINER_COMPATIBILITY fmt = Inherited \<longleftrightarrow>
     fmt \<in> set Object_prototype_properties"
  by (auto simp: lookup_property_def CODEC_CONTAINER_COMPATIBILITY_def
                 Object_prototype_properties_def split: option.splits)

lemma use_fallback_eq:
  "fmt \<notin> set Object_prototype_properties \<Longrightarrow>
   use_fallback p fmt =
     (if fmt = ''avi'' then p\<lparr>videoCodec := Some ''libxvid'', format := Some ''avi''\<rparr>
      else p\<lparr>videoCodec := Some ''libx264'', format := Some ''mp4''\<rparr>)"
  by (simp add: use_fallback_def lookup_property_def SAFE_CODEC_FALLBACKS_def
                SAFE_CODEC_FALLBACKS_default_def)

lemma compatible_fallbacks:
  "compatible (p\<lparr>videoCodec := Some ''libxvid'', format := Some ''avi''\<rparr>)"
  "compatible (p\<lparr>videoCodec := Some ''libx264'', format := Some ''mp4''\<rparr>)"
  by (simp_all add: compatible_def or_default_def lookup_property_def
                    CODEC_CONTAINER_COMPATIBILITY_def)

lemma validate_compatible:
  "compatible p \<Longrightarrow> validateCodecContainerCompatibility p = Inr p"
  by (auto simp: compatible_def validateCodecContainerCompatibility_def Let_def
           split: property.splits)

lemma validate_incompatible:
  assumes "or_default (format p) ''mp4'' \<notin> set Object_prototype_properties"
      and "\<not> compatible p"
  shows "validateCodecContainerCompatibility p =
           Inr (use_fallback p (or_default (format p) ''mp4''))"
  using assms lookup_compat_Inherited [of "or_default (format p) ''mp4''"]
  by (auto simp: compatible_def validateCodecContainerCompatibility_def Let_def
           split: property.splits)

lemma validate_result_compatible:
  assumes "validateCodecContainerCompatibility p = Inr q"
  shows "compatible q"
proof (cases "compatible p")
  case True
  with assms show ?thesis by (simp add: validate_compatible)
next
  case False
  from assms have ok: "or_default (format p) ''mp4'' \<notin> set Object_prototype_properties"
    using lookup_compat_Inherited [of "or_default (format p) ''mp4''"]
    by (auto simp: validateCodecContainerCompatibility_def Let_def split: property.splits)
  with False assms have "q = use_fallback p (or_default (format p) ''mp4'')"
    by (simp add: validate_incompatible)
  with ok show ?thesis
    by (simp add: use_fallback_eq compatible_fallbacks)
qed

text \<open>
  Where the validator returns, its result is a fixed point: validating the result again
  returns it unchanged.
\<close>

lemma validate_idempotent_where_defined:
  "validateCodecContainerCompatibility p = Inr q \<Longrightarrow>
   validateCodecContainerCompatibility q = Inr q"
  by (simp add: validate_result_compatible validate_compatible)

text \<open>
  The validator returns for every container name that is not a member of
  \<^verbatim>\<open>Object.prototype\<close>.
\<close>

lemma validate_returns:
  "or_default (format p) ''mp4'' \<notin> set Object_prototype_properties \<Longrightarrow>
   \<exists>q. validateCodecContainerCompatibility p = Inr q"
  using lookup_compat_Inherited [of "or_default (format p) ''mp4''"]
  by (auto simp: validateCodecContainerCompatibility_def Let_def split: property.splits)

text \<open>
  C6 (the validator is idempotent and never throws). The validator is idempotent wherever
  it returns (\<open>validate_idempotent_where_defined\<close>), but it does throw: the container
  name indexes the compatibility table without an own-property test, so a format that
  names a member of \<^verbatim>\<open>Object.prototype\<close> yields a function, and calling its missing
  \<^verbatim>\<open>includes\<close> raises a \<^verbatim>\<open>TypeError\<close>. The profile \<^verbatim>\<open>{ format: 'constructor' }\<close>
  is such an input.
\<close>

theorem validate_throws_on_inherited_format:
  "validateCodecContainerCompatibility
     \<lparr>videoCodec = None, audioCodec = None, videoBitrate = None, audioBitrate = None,
      crf = None, preset = None, format = Some ''constructor'', resolution = None\<rparr>
   = Inl (TypeError ''compatibleCodecs.includes is not a function'')"
  by (simp add: validateCodecContainerCompatibility_def or_default_def lookup_property_def
                CODEC_CONTAINER_COMPATIBILITY_def Object_prototype_properties_def)

text \<open>
  C7 (a profile whose codec and container are not compatible is returned with the
  fallback pair of its container, a compatible profile is returned unchanged). The same
  defect breaks this claim: the profile \<^verbatim>\<open>{ format: 'constructor', videoCodec: 'libx265' }\<close>
  is not compatible, since the compatibility table has no entry of its own for the
  container, and the validator throws the \<^verbatim>\<open>TypeError\<close> instead of returning the pair
  libx264/mp4.
\<close>

theorem validate_throws_instead_of_fallback:
  "\<not> compatible
       \<lparr>videoCodec = Some ''libx265'', audioCodec = None, videoBitrate = None,
        audioBitrate = None, crf = None, preset = None, format = Some ''constructor'',
        resolution = None\<rparr> \<and>
   validateCodecContainerCompatibility
     \<lparr>videoCodec = Some ''libx265'', audioCodec = None, videoBitrate = None,
      audioBitrate = None, crf = None, preset = None, format = Some ''constructor'',
      resolution = None\<rparr>
   = Inl (TypeError ''compatibleCodecs.includes is not a function'')"
  by (simp add: compatible_def validateCodecContainerCompatibility_def or_default_def
                lookup_property_def CODEC_CONTAINER_COMPATIBILITY_def
                Object_prototype_properties_def)

text \<open>
  Everywhere else the validator does what it is meant to do. Let the container be
  \<^verbatim>\<open>format || 'mp4'\<close> and the codec \<^verbatim>\<open>videoCodec || 'libx264'\<close>. If the compatibility
  table has a list for the container and the codec is not in it, or if the lookup of the
  container yields \<^verbatim>\<open>undefined\<close>, the validator returns the profile with codec and
  container replaced by the fallback pair of that container, which is libxvid/avi for avi
  and libx264/mp4 for every other container, and that pair is compatible. If the table
  has a list for the container and the codec is in it, the profile is returned unchanged.
\<close>

lemma validate_fallback_where_defined:
  "((lookup_property CODEC_CONTAINER_COMPATIBILITY (or_default (format p) ''mp4'') = Own cs \<and>
     or_default (videoCodec p) ''libx264'' \<notin> set cs) \<or>
    lookup_property CODEC_CONTAINER_COMPATIBILITY (or_default (format p) ''mp4'') = Undefined
    \<longrightarrow>
      validateCodecContainerCompatibility p =
        Inr (if or_default (format p) ''mp4'' = ''avi''
             then p\<lparr>videoCodec := Some ''libxvid'', format := Some ''avi''\<rparr>
             else p\<lparr>videoCodec := Some ''libx264'', format := Some ''mp4''\<rparr>) \<and>
      compatible (if or_default (format p) ''mp4'' = ''avi''
             then p\<lparr>videoCodec := Some ''libxvid'', format := Some ''avi''\<rparr>
             else p\<lparr>videoCodec := Some ''libx264'', format := Some ''mp4''\<rparr>)) \<and>
   (lookup_property CODEC_CONTAINER_COMPATIBILITY (or_default (format p) ''mp4'') = Own cs \<and>
    or_default (videoCodec p) ''libx264'' \<in> set cs \<longrightarrow>
      validateCodecContainerCompatibility p = Inr p)"
proof -
  have "or_default (format p) ''mp4'' \<notin> set Object_prototype_properties"
    if "lookup_property CODEC_CONTAINER_COMPATIBILITY (or_default (format p) ''mp4'') \<noteq> Inherited"
    using that lookup_compat_Inherited [of "or_default (format p) ''mp4''"] by simp
  then show ?thesis
    by (auto simp: validateCodecContainerCompatibility_def Let_def use_fallback_eq
                   compatible_fallbacks)
qed

text \<open>
  Examples: avi with the modern codec libx264 becomes avi with libxvid; mov with an
  incompatible codec becomes mp4 with libx264; the unknown container webm becomes mp4
  with libx264; the compatible pair mov/prores is kept.
\<close>

lemma validate_fallback_examples:
  "validateCodecContainerCompatibility
     \<lparr>videoCodec = Some ''libx264'', audioCodec = Some ''aac'', videoBitrate = None,
      audioBitrate = Some ''128k'', crf = Some 23, preset = Some ''medium'',
      format = Some ''avi'', resolution = Some \<lparr>width = 1920, height = 1080\<rparr>\<rparr>
   = Inr \<lparr>videoCodec = Some ''libxvid'', audioCodec = Some ''aac'', videoBitrate = None,
      audioBitrate = Some ''128k'', crf = Some 23, preset = Some ''medium'',
      format = Some ''avi'', resolution = Some \<lparr>width = 1920, height = 1080\<rparr>\<rparr> \<and>
   validateCodecContainerCompatibility
     \<lparr>videoCodec = Some ''mjpeg'', audioCodec = None, videoBitrate = None,
      audioBitrate = None, crf = None, preset = None,
      format = Some ''mov'', resolution = None\<rparr>
   = Inr \<lparr>videoCodec = Some ''libx264'', audioCodec = None, videoBitrate = None,
      audioBitrate = None, crf = None, preset = None,
      format = Some ''mp4'', resolution = None\<rparr> \<and>
   validateCodecContainerCompatibility
     \<lparr>videoCodec = Some ''libvpx'', audioCodec = None, videoBitrate = None,
      audioBitrate = None, crf = None, preset = None,
      format = Some ''webm'', resolution = None\<rparr>
   = Inr \<lparr>videoCodec = Some ''libx264'', audioCodec = None, videoBitrate = None,
      audioBitrate = None, crf = None, preset = None,
      format = Some ''mp4'', resolution = None\<rparr> \<and>
   validateCodecContainerCompatibility
     \<lparr>videoCodec = Some ''prores'', audioCodec = None, videoBitrate = None,
      audioBitrate = None, crf = None, preset = None,
      format = Some ''mov'', resolution = None\<rparr>
   = Inr \<lparr>videoCodec = Some ''prores'', audioCodec = None, videoBitrate = None,
      audioBitrate = None, crf = None, preset = None,
      format = Some ''mov'', resolution = None\<rparr>"
  using validate_fallback_where_defined
          [of "\<lparr>videoCodec = Some ''libx264'', audioCodec = Some ''aac'', videoBitrate = None,
                audioBitrate = Some ''128k'', crf = Some 23, preset = Some ''medium'',
                format = Some ''avi'', resolution = Some \<lparr>width = 1920, height = 1080\<rparr>\<rparr>"
              "[''libxvid'', ''mjpeg'']"]
        validate_fallback_where_defined
          [of "\<lparr>videoCodec = Some ''mjpeg'', audioCodec = None, videoBitrate = None,
                audioBitrate = None, crf = None, preset = None,
                format = Some ''mov'', resolution = None\<rparr>"
              "[''libx264'', ''libx265'', ''h264_nvenc'', ''prores'']"]
        validate_fallback_where_defined
          [of "\<lparr>videoCodec = Some ''libvpx'', audioCodec = None, videoBitrate = None,
                audioBitrate = None, crf = None, preset = None,
                format = Some ''webm'', resolution = None\<rparr>" "[]"]
        validate_fallback_where_defined
          [of "\<lparr>videoCodec = Some ''prores'', audioCodec = None, videoBitrate = None,
                audioBitrate = None, crf = None, preset = None,
                format = Some ''mov'', resolution = None\<rparr>"
              "[''libx264'', ''libx265'', ''h264_nvenc'', ''prores'']"]
  by (simp add: or_default_def lookup_property_def
                CODEC_CONTAINER_COMPATIBILITY_def Object_prototype_properties_def)

text \<open>
  C10. Whenever the validator returns a profile, with or without a substitution, the
  fields audioCodec, audioBitrate, crf, videoBitrate, preset and resolution of the result
  are those of the input: only videoCodec and format can change.
\<close>

theorem validate_frame:
  assumes "validateCodecContainerCompatibility p = Inr q"
  shows "audioCodec q = audioCodec p \<and> audioBitrate q = audioBitrate p \<and> crf q = crf p \<and>
         videoBitrate q = videoBitrate p \<and> preset q = preset p \<and>
         resolution q = resolution p"
  using assms
  by (auto simp: validateCodecContainerCompatibility_def use_fallback_def Let_def
           split: property.splits if_splits)

theorem validate_frame_witness:
  "validateCodecContainerCompatibility
     \<lparr>videoCodec = Some ''libx264'', audioCodec = Some ''aac'', videoBitrate = Some ''2000k'',
      audioBitrate = Some ''192k'', crf = Some 18, preset = Some ''slow'',
      format = Some ''avi'', resolution = Some \<lparr>width = 1920, height = 1080\<rparr>\<rparr>
   = Inr \<lparr>videoCodec = Some ''libxvid'', audioCodec = Some ''aac'', videoBitrate = Some ''2000k'',
      audioBitrate = Some ''192k'', crf = Some 18, preset = Some ''slow'',
      format = Some ''avi'', resolution = Some \<lparr>width = 1920, height = 1080\<rparr>\<rparr> \<and>
   audioCodec \<lparr>videoCodec = Some ''libxvid'', audioCodec = Some ''aac'',
      videoBitrate = Some ''2000k'', audioBitrate = Some ''192k'', crf = Some 18,
      preset = Some ''slow'', format = Some ''avi'',
      resolution = Some \<lparr>width = 1920, height = 1080\<rparr>\<rparr> = Some ''aac''"
proof -
  have run: "validateCodecContainerCompatibility
     \<lparr>videoCodec = Some ''libx264'', audioCodec = Some ''aac'', videoBitrate = Some ''2000k'',
      audioBitrate = Some ''192k'', crf = Some 18, preset = Some ''slow'',
      format = Some ''avi'', resolution = Some \<lparr>width = 1920, height = 1080\<rparr>\<rparr>
   = Inr \<lparr>videoCodec = Some ''libxvid'', audioCodec = Some ''aac'', videoBitrate = Some ''2000k'',
      audioBitrate = Some ''192k'', crf = Some 18, preset = Some ''slow'',
      format = Some ''avi'', resolution = Some \<lparr>width = 1920, height = 1080\<rparr>\<rparr>"
    by (simp add: validateCodecContainerCompatibility_def use_fallback_def or_default_def
                  lookup_property_def CODEC_CONTAINER_COMPATIBILITY_def SAFE_CODEC_FALLBACKS_def)
  from validate_frame [OF run] run show ?thesis by simp
qed

section \<open>Properties of the narration synthesizer\<close>

lemma length_utf16 [simp]: "length (utf16 s) = length s"
  by (simp add: utf16_def)

lemma generateAudioWithRetry_returns:
  "write_audio (speech_create w (length requests))
     (path_join (tempDir w) (fileName @ ''.'' @ f)) = Inr p \<Longrightarrow>
   generateAudioWithRetry w requests tx v m f fileName attempt =
     (requests @ [\<lparr>model = m, voice = v, input = truncated tx, response_format = f\<rparr>], Inr p)"
  by (subst generateAudioWithRetry.simps) (simp add: Let_def truncated_def)

lemma generateAudioWithRetry_retries:
  "write_audio (speech_create w (length requests))
     (path_join (tempDir w) (fileName @ ''.'' @ f)) = Inl e \<Longrightarrow>
   isRateLimitError e \<Longrightarrow> attempt < maxRetries \<Longrightarrow>
   generateAudioWithRetry w requests tx v m f fileName attempt =
     generateAudioWithRetry w
       (requests @ [\<lparr>model = m, voice = v, input = truncated tx, response_format = f\<rparr>])
       tx v m f fileName (attempt + 1)"
  by (subst generateAudioWithRetry.simps) (simp add: Let_def truncated_def)

lemma generateAudioWithRetry_throws:
  "write_audio (speech_create w (length requests))
     (path_join (tempDir w) (fileName @ ''.'' @ f)) = Inl e \<Longrightarrow>
   \<not> (isRateLimitError e \<and> attempt < maxRetries) \<Longrightarrow>
   generateAudioWithRetry w requests tx v m f fileName attempt =
     (requests @ [\<lparr>model = m, voice = v, input = truncated tx, response_format = f\<rparr>],
      Inl (Error (if message_includes e ''rate_limit_exceeded'' \<or> thrown_status e = Some 429
                  then ''OpenAI TTS rate limit exceeded. Please try again in a few minutes.''
                  else ''TTS generation failed: '' @ message_of e)))"
  by (subst generateAudioWithRetry.simps) (auto simp: Let_def truncated_def)

text \<open>
  Every run of \<^verbatim>\<open>generateAudioWithRetry\<close> sends at least one request, and the input of
  each request it sends is the truncated text.
\<close>

lemma generateAudioWithRetry_requests:
  "\<exists>new. fst (generateAudioWithRetry w requests tx v m f fileName attempt) = requests @ new \<and>
         new \<noteq> [] \<and> (\<forall>q \<in> set new. input q = truncated tx)"
proof (induction w requests tx v m f fileName attempt rule: generateAudioWithRetry.induct)
  case (1 w requests tx v m f fileName attempt)
  let ?req = "\<lparr>model = m, voice = v, input = truncated tx, response_format = f\<rparr>"
  let ?out = "write_audio (speech_create w (length requests))
                (path_join (tempDir w) (fileName @ ''.'' @ f))"
  show ?case
  proof (cases ?out)
    case (Inr p)
    then show ?thesis by (simp add: generateAudioWithRetry_returns)
  next
    case (Inl e)
    show ?thesis
    proof (cases "isRateLimitError e \<and> attempt < maxRetries")
      case False
      with Inl show ?thesis by (simp add: generateAudioWithRetry_throws)
    next
      case True
      with Inl have
        "\<exists>new. fst (generateAudioWithRetry w (requests @ [?req]) tx v m f fileName (attempt + 1))
                 = (requests @ [?req]) @ new \<and> new \<noteq> [] \<and>
               (\<forall>q \<in> set new. input q = truncated tx)"
        using "1.IH" [of "truncated tx" "requests @ [?req]" e] by (simp add: truncated_def)
      then obtain new where
        "fst (generateAudioWithRetry w (requests @ [?req]) tx v m f fileName (attempt + 1))
           = requests @ (?req # new)"
        "\<forall>q \<in> set (?req # new). input q = truncated tx"
        by auto
      with Inl True show ?thesis
        by (metis generateAudioWithRetry_retries list.distinct(1))
    qed
  qed
qed

lemma length_truncated: "length (truncated tx) \<le> 4003"
  by (simp add: truncated_def)

text \<open>
  C9 (the text submitted to the speech API has at most 4000 characters). The claim fails:
  a text of more than 4000 code units is cut to its first 4000 and the three characters
  of an ellipsis are appended, so the input of the request has 4003 code units. The
  counterexample is a text of 4001 code units.
\<close>

theorem submitted_text_exceeds_4000:
  "map (\<lambda>q. length (input q))
     (fst (generateAudioWithRetry (example_tts_world (\<lambda>k. example_attempt_ok)) []
             (replicate 4001 97) ''alloy'' ''tts-1'' ''mp3'' ''slide_s1_0'' 1))
   = [4003]"
proof -
  have "generateAudioWithRetry (example_tts_world (\<lambda>k. example_attempt_ok)) []
          (replicate 4001 97) ''alloy'' ''tts-1'' ''mp3'' ''slide_s1_0'' 1
        = ([\<lparr>model = ''tts-1'', voice = ''alloy'', input = truncated (replicate 4001 97),
             response_format = ''mp3''\<rparr>], Inr ''uploads/tts_audio/slide_s1_0.mp3'')"
    by (subst generateAudioWithRetry_returns
          [where p = "''uploads/tts_audio/slide_s1_0.mp3''"])
       (simp_all add: example_tts_world_def example_attempt_ok_def write_audio_def path_join_def)
  moreover have "length (truncated (replicate 4001 (97 :: 16 word))) = 4003"
    by (simp add: truncated_def)
  ultimately show ?thesis by simp
qed

text \<open>
  C9, amended. For every text and every run of \<^verbatim>\<open>generateAudioWithRetry\<close>, each request
  the run sends to the speech API carries the text itself when the text has at most 4000
  code units, and otherwise its first 4000 code units followed by the ellipsis; in both
  cases the input has at most 4003 code units.
\<close>

theorem submitted_text_bound:
  "\<forall>q \<in> set (drop (length requests)
                (fst (generateAudioWithRetry w requests tx v m f fileName attempt))).
     input q = (if length tx > 4000 then take 4000 tx @ utf16 ''...'' else tx) \<and>
     length (input q) \<le> 4003"
proof -
  obtain new where
    "fst (generateAudioWithRetry w requests tx v m f fileName attempt) = requests @ new"
    "\<forall>q \<in> set new. input q = truncated tx"
    using generateAudioWithRetry_requests by blast
  then show ?thesis using length_truncated [of tx] by (auto simp: truncated_def)
qed

theorem submitted_text_bound_witness:
  "fst (generateAudioWithRetry (example_tts_world (\<lambda>k. example_attempt_ok)) []
          (replicate 4001 97) ''alloy'' ''tts-1'' ''mp3'' ''slide_s1_0'' 1)
     = [\<lparr>model = ''tts-1'', voice = ''alloy'', input = replicate 4000 97 @ utf16 ''...'',
         response_format = ''mp3''\<rparr>] \<and>
   length (replicate 4000 (97 :: 16 word) @ utf16 ''...'') \<le> 4003"
proof -
  have run: "fst (generateAudioWithRetry (example_tts_world (\<lambda>k. example_attempt_ok)) []
          (replicate 4001 97) ''alloy'' ''tts-1'' ''mp3'' ''slide_s1_0'' 1)
        = [\<lparr>model = ''tts-1'', voice = ''alloy'', input = replicate 4000 97 @ utf16 ''...'',
           response_format = ''mp3''\<rparr>]"
    by (subst generateAudioWithRetry_returns
          [where p = "''uploads/tts_audio/slide_s1_0.mp3''"])
       (simp_all add: example_tts_world_def example_attempt_ok_def write_audio_def path_join_def
                      truncated_def)
  from submitted_text_bound [of "[]" "example_tts_world (\<lambda>k. example_attempt_ok)"
         "replicate 4001 97" "''alloy''" "''tts-1''" "''mp3''" "''slide_s1_0''" 1]
  show ?thesis unfolding run by simp
qed

lemma narration_loop_outcomes:
  "snd (narration_loop w v m f i slides (requests, results, errors)) =
     (results @ clips (slide_outcomes w v m f i slides requests),
      errors @ failures (slide_outcomes w v m f i slides requests))"
proof (induction slides arbitrary: i requests results errors)
  case Nil
  then show ?case by simp
next
  case (Cons slide rest)
  obtain requests' out where step: "narrate_slide w requests i slide v m f = (requests', out)"
    by (cases "narrate_slide w requests i slide v m f")
  show ?case
    by (cases out) (simp_all add: step Cons.IH)
qed

lemma set_clips: "set (clips os) = {r. Narrated r \<in> set os}"
  by (induction os rule: clips.induct) auto

lemma clips_empty_iff: "clips os = [] \<longleftrightarrow> (\<forall>r. Narrated r \<notin> set os)"
  by (induction os rule: clips.induct) auto

lemma failures_nonempty:
  "os \<noteq> [] \<Longrightarrow> \<forall>out \<in> set os. \<exists>sid e. out = Failed sid e \<Longrightarrow> failures os \<noteq> []"
  by (cases os) auto

lemma slide_outcomes_Nil: "slide_outcomes w v m f i slides requests = [] \<longleftrightarrow> slides = []"
  by (cases slides) simp_all

lemma generatePresentationNarration_result:
  "snd (generatePresentationNarration w requests slides v m f) =
     (if slides = [] then Inl (Error ''No slides provided for narration'')
      else if clips (slide_outcomes w v m f 0 slides requests) = [] \<and>
              failures (slide_outcomes w v m f 0 slides requests) \<noteq> []
      then Inl (Error (''Failed to generate any narration. Errors: '' @
                        join '', '' (map snd (failures (slide_outcomes w v m f 0 slides requests)))))
      else Inr (clips (slide_outcomes w v m f 0 slides requests)))"
proof -
  obtain requests' results errors where
    loop: "narration_loop w v m f 0 slides (requests, [], []) = (requests', results, errors)"
    by (cases "narration_loop w v m f 0 slides (requests, [], [])") auto
  with narration_loop_outcomes [of w v m f 0 slides requests "[]" "[]"]
  have "results = clips (slide_outcomes w v m f 0 slides requests)"
       "errors = failures (slide_outcomes w v m f 0 slides requests)"
    by simp_all
  with loop show ?thesis
    by (simp add: generatePresentationNarration_def)
qed

text \<open>
  C5. Let the outcomes be what the loop body did for each slide in turn (skipped,
  narrated, failed). If some slide was narrated, the batch returns, without raising,
  exactly the clips of the narrated slides, whatever happened to the others. If the batch
  raises, no slide was narrated. If the synthesis of every slide failed, the batch
  raises.
\<close>

theorem batch_narration_partial_failure:
  "(Narrated r \<in> set (slide_outcomes w v m f 0 slides requests) \<longrightarrow>
      snd (generatePresentationNarration w requests slides v m f) =
        Inr (clips (slide_outcomes w v m f 0 slides requests)) \<and>
      r \<in> set (clips (slide_outcomes w v m f 0 slides requests))) \<and>
   (snd (generatePresentationNarration w requests slides v m f) = Inl e \<longrightarrow>
      (\<forall>r. Narrated r \<notin> set (slide_outcomes w v m f 0 slides requests))) \<and>
   ((\<forall>out \<in> set (slide_outcomes w v m f 0 slides requests). \<exists>sid e. out = Failed sid e) \<longrightarrow>
      (\<exists>e. snd (generatePresentationNarration w requests slides v m f) = Inl e))"
proof (intro conjI impI)
  assume "Narrated r \<in> set (slide_outcomes w v m f 0 slides requests)"
  then have ne: "clips (slide_outcomes w v m f 0 slides requests) \<noteq> []"
    by (auto simp: clips_empty_iff)
  then have "slides \<noteq> []" by auto
  with ne show "snd (generatePresentationNarration w requests slides v m f) =
        Inr (clips (slide_outcomes w v m f 0 slides requests))"
    by (simp add: generatePresentationNarration_result)
next
  assume "Narrated r \<in> set (slide_outcomes w v m f 0 slides requests)"
  then show "r \<in> set (clips (slide_outcomes w v m f 0 slides requests))"
    by (simp add: set_clips)
next
  assume "snd (generatePresentationNarration w requests slides v m f) = Inl e"
  then have "slides = [] \<or> clips (slide_outcomes w v m f 0 slides requests) = []"
    by (auto simp: generatePresentationNarration_result split: if_splits)
  then show "\<forall>r. Narrated r \<notin> set (slide_outcomes w v m f 0 slides requests)"
    by (auto simp: clips_empty_iff)
next
  assume a: "\<forall>out \<in> set (slide_outcomes w v m f 0 slides requests). \<exists>sid e. out = Failed sid e"
  show "\<exists>e. snd (generatePresentationNarration w requests slides v m f) = Inl e"
  proof (cases "slides = []")
    case True
    then show ?thesis by (simp add: generatePresentationNarration_result)
  next
    case False
    with a have "failures (slide_outcomes w v m f 0 slides requests) \<noteq> []"
      using failures_nonempty [of "slide_outcomes w v m f 0 slides requests"]
      by (simp add: slide_outcomes_Nil)
    moreover from a have "clips (slide_outcomes w v m f 0 slides requests) = []"
      by (auto simp: clips_empty_iff)
    ultimately show ?thesis
      using False by (simp add: generatePresentationNarration_result)
  qed
qed

lemmas tts_eval =
  example_tts_world_def example_attempt_ok_def example_rate_limited_def example_refused_def
  example_slide_def example_slides_def example_clip_def
  narrate_slide_def narrationText_def trim_def isWhiteSpace_def utf16_def
  generateSlideNarration_def getAudioDuration_def write_audio_def path_join_def
  generateAudioWithRetry_returns generateAudioWithRetry_retries generateAudioWithRetry_throws
  isRateLimitError_def message_includes_def maxRetries_def message_of_def new_Error_def

text \<open>
  Five slides. In the first environment the requests 2, 3 and 4 are rate limited, so the
  third slide exhausts its three attempts; in the second every request is refused.
\<close>

lemma example_outcomes_one_failure:
  "slide_outcomes
     (example_tts_world (\<lambda>k. if k = 2 \<or> k = 3 \<or> k = 4 then example_rate_limited
                               else example_attempt_ok))
     ''alloy'' ''tts-1'' ''mp3'' 0 example_slides []
   = [Narrated (example_clip ''s1''), Narrated (example_clip ''s2''),
      Failed ''s3'' ''Narration generation failed: OpenAI TTS rate limit exceeded. Please try again in a few minutes.'',
      Narrated (example_clip ''s4''), Narrated (example_clip ''s5'')]"
  by (simp add: tts_eval)

lemma example_outcomes_all_fail:
  "slide_outcomes (example_tts_world (\<lambda>k. example_refused))
     ''alloy'' ''tts-1'' ''mp3'' 0 example_slides []
   = [Failed ''s1'' ''Narration generation failed: TTS generation failed: connection refused'',
      Failed ''s2'' ''Narration generation failed: TTS generation failed: connection refused'',
      Failed ''s3'' ''Narration generation failed: TTS generation failed: connection refused'',
      Failed ''s4'' ''Narration generation failed: TTS generation failed: connection refused'',
      Failed ''s5'' ''Narration generation failed: TTS generation failed: connection refused'']"
  by (simp add: tts_eval)

theorem batch_narration_partial_failure_witness:
  "snd (generatePresentationNarration
          (example_tts_world (\<lambda>k. if k = 2 \<or> k = 3 \<or> k = 4 then example_rate_limited
                                    else example_attempt_ok))
          [] example_slides ''alloy'' ''tts-1'' ''mp3'')
     = Inr [example_clip ''s1'', example_clip ''s2'', example_clip ''s4'', example_clip ''s5''] \<and>
   (\<exists>e. snd (generatePresentationNarration (example_tts_world (\<lambda>k. example_refused))
                [] example_slides ''alloy'' ''tts-1'' ''mp3'') = Inl e)"
  using batch_narration_partial_failure
          [of "example_clip ''s1''"
              "example_tts_world (\<lambda>k. if k = 2 \<or> k = 3 \<or> k = 4 then example_rate_limited
                                        else example_attempt_ok)"
              "''alloy''" "''tts-1''" "''mp3''" example_slides "[]"]
        batch_narration_partial_failure
          [of _ "example_tts_world (\<lambda>k. example_refused)"
              "''alloy''" "''tts-1''" "''mp3''" example_slides "[]"]
  by (simp add: example_outcomes_one_failure example_outcomes_all_fail)

section \<open>Properties of the assembly service\<close>

text \<open>
  The rules that evaluate the operations on doubles at numerals and fractions of
  numerals.
\<close>

lemmas double_eval =
  dadd_def dsub_def dmul_def ddiv_def
  to_double_def [of 0] to_double_def [of 1] to_double_def [of "numeral n" for n]
  to_double_def [of "numeral n / numeral m" for n m] to_double_def [of "1 / numeral m" for m]
  exponent_def pow2_def round_half_even_def bit_length.simps

text \<open>
  The double written \<^verbatim>\<open>0.1\<close> is \<^verbatim>\<open>3602879701896397 / 2^55\<close>; \<^verbatim>\<open>0.1 + 0.2\<close> is
  0.30000000000000004; \<^verbatim>\<open>2^53 + 1\<close> lies half way between two doubles and is rounded to
  the even one, \<^verbatim>\<open>2^53\<close>, and \<^verbatim>\<open>2^53 + 3\<close> to \<^verbatim>\<open>2^53 + 4\<close>; \<^verbatim>\<open>90 * 0.7\<close> is
  62.99999999999999.
\<close>

lemma to_double_examples:
  "to_double (1 / 10) = 3602879701896397 / 36028797018963968 \<and>
   dadd (to_double (1 / 10)) (to_double (2 / 10)) = 5404319552844596 / 18014398509481984 \<and>
   to_double 9007199254740993 = 9007199254740992 \<and>
   to_double 9007199254740995 = 9007199254740996 \<and>
   \<lfloor>dmul 90 (to_double (7 / 10))\<rfloor> = 62"
  by (simp add: double_eval)

lemma retryOperation_settles:
  "operation attempt = (reported, Inr v) \<Longrightarrow> attempt \<le> maxR \<Longrightarrow>
   retryOperation operation maxR attempt = (reported, Inr v)"
  by (subst retryOperation.simps) simp

lemma string_of_nat_digit: "n < 10 \<Longrightarrow> string_of_nat n = [char_of (48 + n)]"
  by (subst string_of_nat.simps) simp

lemma createSlideVideo_duration:
  "createSlideVideo sw img aud out qs = (reported, Inr r) \<Longrightarrow>
   probe sw = Inr (Some (VideoAssemblyResult.duration r))"
  by (auto simp: createSlideVideo_def getAudioDuration_def
           split: if_splits sum.splits option.splits prod.splits)

text \<open>
  When the loop of step 1 completes, every slide was probed with a numeric duration, and
  the accumulated total is the result of adding these durations one by one, in the order
  of the slides, each addition rounded to a double.
\<close>

lemma slide_loop_total:
  "slide_loop w jobId qs n i slides (st, vids, tot) = (st', Inr (vids', tot')) \<Longrightarrow>
   \<exists>ds. length ds = length slides \<and>
        (\<forall>k < length slides. probe (slide_at w (i + k)) = Inr (Some (ds ! k))) \<and>
        tot' = foldl dadd tot ds \<and> length vids' = length vids + length slides"
proof (induction slides arbitrary: i st vids tot)
  case Nil
  then show ?case by simp
next
  case (Cons slide rest)
  let ?path = "path_join (videoTempDir w)
                 (''slide_'' @ string_of_nat i @ ''_'' @ video_Date_now w i @ ''.mp4'')"
  obtain reported result where
    c: "createSlideVideo (slide_at w i) (imagePath slide) (audioPath slide) ?path qs
          = (reported, result)"
    by (cases "createSlideVideo (slide_at w i) (imagePath slide) (audioPath slide) ?path qs")
  from Cons.prems c obtain r where r: "result = Inr r"
    by (cases result) (auto simp: Let_def)
  from c r have p: "probe (slide_at w i) = Inr (Some (VideoAssemblyResult.duration r))"
    by (simp add: createSlideVideo_duration)
  from Cons.prems c r obtain st2 where
    "slide_loop w jobId qs n (i + 1) rest
       (st2, vids @ [VideoAssemblyResult.videoPath r],
        dadd tot (VideoAssemblyResult.duration r))
     = (st', Inr (vids', tot'))"
    by (auto simp: Let_def)
  from Cons.IH [OF this] obtain ds where ds:
    "length ds = length rest"
    "\<forall>k < length rest. probe (slide_at w (i + 1 + k)) = Inr (Some (ds ! k))"
    "tot' = foldl dadd (dadd tot (VideoAssemblyResult.duration r)) ds"
    "length vids' = length (vids @ [VideoAssemblyResult.videoPath r]) + length rest"
    by auto
  have "\<forall>k < length (slide # rest).
          probe (slide_at w (i + k)) = Inr (Some ((VideoAssemblyResult.duration r # ds) ! k))"
  proof (intro allI impI)
    fix k assume "k < length (slide # rest)"
    then show "probe (slide_at w (i + k)) = Inr (Some ((VideoAssemblyResult.duration r # ds) ! k))"
      using p ds(2) by (cases k) auto
  qed
  with ds show ?case
    by (intro exI [of _ "VideoAssemblyResult.duration r # ds"]) simp
qed

lemma validated_type_supported:
  "type (validateTransitionSettings ts) \<in> {''none'', ''crossfade'', ''fade-to-black''}"
  by (simp add: validateTransitionSettings_def supportedTransitions_def)

lemmas video_eval =
  example_slide_world_def example_video_world_def example_server_def example_input_def
  example_export_def VIDEO_QUALITY_PRESETS_def
  assemblePresentationVideo_def assemble_try_def createSlideVideo_def
  createVideoWithImageAndAudio_def getAudioDuration_def
  concatenateVideosWithTransitions_def reencodeVideo_def
  validateTransitionSettings_def supportedTransitions_def
  validateCodecContainerCompatibility_def lookup_property_def or_default_def
  CODEC_CONTAINER_COMPATIBILITY_def
  retryOperation_settles percent_or_0_def updateJobProgress_def updateExportProgress_def
  truthy_def path_join_def string_of_nat_digit Let_def double_eval

text \<open>
  Three slides of 8, 6 and 7 seconds: a crossfade of 1 second gives 19 seconds, the type
  wipe is coerced to crossfade and gives 19 seconds, fade-to-black gives 23 seconds and
  none gives 21 seconds; a single slide of 10 seconds gives 10 seconds.
\<close>

lemma example_crossfade:
  "snd (assemblePresentationVideo
          (example_video_world (\<lambda>i. example_slide_world [] ([8, 6, 7] ! i)) True)
          example_server [example_input ''s1'', example_input ''s2'', example_input ''s3'']
          ''/app/uploads/videos/out.mp4'' (VIDEO_QUALITY_PRESETS medium)
          \<lparr>type = ''crossfade'', duration = 1\<rparr> ''e1'')
   = Inr \<lparr>videoPath = ''/app/uploads/videos/out.mp4'', totalDuration = 19\<rparr>"
  by (simp add: video_eval)

lemma example_fade_to_black:
  "snd (assemblePresentationVideo
          (example_video_world (\<lambda>i. example_slide_world [] ([8, 6, 7] ! i)) True)
          example_server [example_input ''s1'', example_input ''s2'', example_input ''s3'']
          ''/app/uploads/videos/out.mp4'' (VIDEO_QUALITY_PRESETS medium)
          \<lparr>type = ''fade-to-black'', duration = 1\<rparr> ''e1'')
   = Inr \<lparr>videoPath = ''/app/uploads/videos/out.mp4'', totalDuration = 23\<rparr>"
  by (simp add: video_eval)

lemma example_single:
  "snd (assemblePresentationVideo
          (example_video_world (\<lambda>i. example_slide_world [] 10) True)
          example_server [example_input ''s1'']
          ''/app/uploads/videos/out.mp4'' (VIDEO_QUALITY_PRESETS medium)
          \<lparr>type = ''crossfade'', duration = 1 / 2\<rparr> ''e1'')
   = Inr \<lparr>videoPath = ''/app/uploads/videos/out.mp4'', totalDuration = 10\<rparr>"
  by (simp add: video_eval)

text \<open>
  C1 (the returned \<^verbatim>\<open>totalDuration\<close> equals the sum of the segment durations, minus
  \<open>(n - 1) * T\<close> for a crossfade, plus \<open>(n - 1) * T\<close> for another transition). The code
  evaluates this formula in double-precision arithmetic, so what it returns is the
  formula's value only up to rounding. With two slides whose audio lasts 0.1 and 0.2
  seconds and a crossfade of 0.1 seconds, the sum of the durations minus \<open>(n - 1) * T\<close> is
  the double 0.2, that is \<^verbatim>\<open>7205759403792794 / 2^55\<close>; the code adds 0.1 and 0.2 to
  0.30000000000000004 and returns 0.20000000000000004, that is
  \<^verbatim>\<open>7205759403792795 / 2^55\<close>.
\<close>

theorem totalDuration_is_rounded:
  "snd (assemblePresentationVideo
          (example_video_world
             (\<lambda>i. example_slide_world [] ([to_double (1 / 10), to_double (2 / 10)] ! i)) True)
          example_server [example_input ''s1'', example_input ''s2'']
          ''/app/uploads/videos/out.mp4'' (VIDEO_QUALITY_PRESETS medium)
          \<lparr>type = ''crossfade'', duration = to_double (1 / 10)\<rparr> ''e1'')
   = Inr \<lparr>videoPath = ''/app/uploads/videos/out.mp4'',
          totalDuration = 7205759403792795 / 36028797018963968\<rparr> \<and>
   (to_double (1 / 10) + to_double (2 / 10)) - (2 - 1) * to_double (1 / 10)
   = 7205759403792794 / 36028797018963968"
  by (simp add: video_eval)

text \<open>
  C1, amended. Whenever \<^verbatim>\<open>assemblePresentationVideo\<close> returns, each of its \<open>n\<close> slides
  was probed with a numeric audio duration, and the returned \<^verbatim>\<open>totalDuration\<close> is the
  formula of the claim evaluated in double-precision arithmetic in the order of the code.
  The durations are added one by one, in the order of the slides, starting from 0, each
  addition rounded to a double. With \<open>T\<close> the duration of the transition settings, the
  rounded product \<open>(n - 1) * T\<close> is then subtracted, with rounding, when \<open>n \<ge> 2\<close> and the
  validated transition type is crossfade; it is added, with rounding, when \<open>n \<ge> 2\<close> and the
  validated type is neither none nor crossfade (that is, fade-to-black); for a single
  slide or the type none the rounded sum is returned.
\<close>

theorem assemble_totalDuration_rounded:
  assumes "assemblePresentationVideo w st slides outputPath qs ts jobId = (st', Inr result)"
  shows "\<exists>ds. length ds = length slides \<and>
              (\<forall>k < length slides. probe (slide_at w k) = Inr (Some (ds ! k))) \<and>
              totalDuration result =
                (if 2 \<le> length slides \<and> type (validateTransitionSettings ts) = ''crossfade''
                 then dsub (foldl dadd 0 ds) (dmul (real (length slides - 1)) (duration ts))
                 else if 2 \<le> length slides \<and> type (validateTransitionSettings ts) \<noteq> ''none''
                 then dadd (foldl dadd 0 ds) (dmul (real (length slides - 1)) (duration ts))
                 else foldl dadd 0 ds)"
proof -
  let ?vt = "validateTransitionSettings ts"
  have keep: "duration ?vt = duration ts"
    by (simp add: validateTransitionSettings_def)
  from assms have ne: "slides \<noteq> []"
    by (auto simp: assemblePresentationVideo_def Let_def split: if_splits)
  with assms have body: "assemble_try w st slides outputPath qs ?vt jobId = (st', Inr result)"
    by (auto simp: assemblePresentationVideo_def Let_def split: prod.splits sum.splits)
  then obtain st1 vids tot where
    loop: "slide_loop w jobId qs (length slides) 0 slides
             (updateJobProgress w st jobId 0 ''processing'', [], 0) = (st1, Inr (vids, tot))"
    by (auto simp: assemble_try_def split: prod.splits sum.splits)
  from slide_loop_total [OF loop] obtain ds where ds:
    "length ds = length slides"
    "\<forall>k < length slides. probe (slide_at w k) = Inr (Some (ds ! k))"
    "tot = foldl dadd 0 ds"
    by auto
  from body loop have
    "totalDuration result =
       (if length slides > 1 \<and> type ?vt \<noteq> ''none''
        then if type ?vt = ''crossfade''
             then dsub tot (dmul (real (length slides - 1)) (duration ?vt))
             else dadd tot (dmul (real (length slides - 1)) (duration ?vt))
        else tot)"
    by (auto simp: assemble_try_def Let_def split: prod.splits sum.splits if_splits)
  with ds keep show ?thesis
    by (intro exI [of _ ds]) auto
qed

text \<open>
  The witness: three slides of 8, 6 and 7 seconds with a crossfade of 1 second. No
  operation rounds here, and the result is 19 seconds.
\<close>

theorem assemble_totalDuration_rounded_witness:
  "snd (assemblePresentationVideo
          (example_video_world (\<lambda>i. example_slide_world [] ([8, 6, 7] ! i)) True)
          example_server [example_input ''s1'', example_input ''s2'', example_input ''s3'']
          ''/app/uploads/videos/out.mp4'' (VIDEO_QUALITY_PRESETS medium)
          \<lparr>type = ''crossfade'', duration = 1\<rparr> ''e1'')
   = Inr \<lparr>videoPath = ''/app/uploads/videos/out.mp4'',
          totalDuration = dsub (foldl dadd 0 [8, 6, 7]) (dmul (real (3 - 1)) 1)\<rparr> \<and>
   dsub (foldl dadd 0 [8, 6, 7]) (dmul (real (3 - 1)) 1) = 19"
proof -
  have run: "assemblePresentationVideo
          (example_video_world (\<lambda>i. example_slide_world [] ([8, 6, 7] ! i)) True)
          example_server [example_input ''s1'', example_input ''s2'', example_input ''s3'']
          ''/app/uploads/videos/out.mp4'' (VIDEO_QUALITY_PRESETS medium)
          \<lparr>type = ''crossfade'', duration = 1\<rparr> ''e1''
     = (fst (assemblePresentationVideo
          (example_video_world (\<lambda>i. example_slide_world [] ([8, 6, 7] ! i)) True)
          example_server [example_input ''s1'', example_input ''s2'', example_input ''s3'']
          ''/app/uploads/videos/out.mp4'' (VIDEO_QUALITY_PRESETS medium)
          \<lparr>type = ''crossfade'', duration = 1\<rparr> ''e1''),
        Inr \<lparr>videoPath = ''/app/uploads/videos/out.mp4'', totalDuration = 19\<rparr>)"
    using example_crossfade by (simp add: prod_eq_iff)
  have exact: "dsub (foldl dadd 0 [8, 6, 7]) (dmul (real (3 - 1)) 1) = 19"
    by (simp add: double_eval)
  from assemble_totalDuration_rounded [OF run] example_crossfade exact show ?thesis
    by simp
qed

text \<open>
  C3 (the progress written during one run of \<^verbatim>\<open>assemblePresentationVideo\<close> never
  decreases after the initial 0). The code breaks the claim. The callback of the slide
  loop receives the encoder's percentage (0 to 100) and adds \<^verbatim>\<open>(slideProgress / n) * 30\<close>,
  so it writes values far above the 0-30 band its comment announces, and the next slide
  starts again at \<^verbatim>\<open>Math.floor((i / n) * 30)\<close>. With two slides and the progress events
  50 and 100 while the first is encoded, the values written are 0, 0, 750, 1500, 15, 30,
  95, 100; every number in this computation is an integer or a half, so no operation
  rounds. (The concatenation callback has the same defect: at 100 percent it writes
  \<^verbatim>\<open>30 + Math.floor(100 * 0.7)\<close>, that is 100, before the 95 of the cleanup.)
\<close>

theorem progress_written_decreases:
  "map (\<lambda>(job, p, s). p)
     (console (fst (assemblePresentationVideo
          (example_video_world
             (\<lambda>i. example_slide_world (if i = 0 then [Some 50, Some 100] else []) ([8, 6] ! i))
             True)
          example_server [example_input ''s1'', example_input ''s2'']
          ''/app/uploads/videos/out.mp4'' (VIDEO_QUALITY_PRESETS medium)
          \<lparr>type = ''crossfade'', duration = 1\<rparr> ''e1'')))
   = [0, 0, 750, 1500, 15, 30, 95, 100]"
  by (simp add: video_eval)

text \<open>
  When \<^verbatim>\<open>assemblePresentationVideo\<close> throws on a non-empty list of slides, its last write
  to the job map is the progress 0 with the status \<^verbatim>\<open>error\<close>.
\<close>

lemma assemble_failure_progress:
  assumes "assemblePresentationVideo w st slides outputPath qs ts jobId = (st', Inl e)"
      and "slides \<noteq> []"
  shows "jobProgress st' jobId = Some \<lparr>progress = 0, status = ''error''\<rparr> \<and>
         console st' \<noteq> [] \<and> last (console st') = (jobId, 0, ''error'')"
  using assms
  by (auto simp: assemblePresentationVideo_def Let_def updateJobProgress_def
           split: prod.splits sum.splits)

section \<open>Properties of the storage\<close>

text \<open>
  No operation of the pipeline creates or deletes an export record: the set of export
  ids is the same before and after.
\<close>

lemma dom_updateExportProgress [simp]:
  "dom (updateExportProgress store eid p ph m e) = dom store"
  by (auto simp: updateExportProgress_def split: option.splits)

lemma dom_updateExportStatus [simp]:
  "dom (updateExportStatus store eid ready url e) = dom store"
  by (auto simp: updateExportStatus_def split: option.splits)

lemma dom_updateExportFilePath [simp]:
  "dom (updateExportFilePath store eid path sz) = dom store"
  by (auto simp: updateExportFilePath_def split: option.splits)

lemma dom_updateJobProgress [simp]:
  "dom (exports (updateJobProgress w st jobId p s)) = dom (exports st)"
  by (simp add: updateJobProgress_def)

lemma dom_report [simp]: "dom (exports (report st eid p ph m)) = dom (exports st)"
  by (simp add: report_def)

lemma dom_fold_updateJobProgress [simp]:
  "dom (exports (fold (\<lambda>x s. updateJobProgress w s jobId (g x) (h x)) xs st)) = dom (exports st)"
  by (induction xs arbitrary: st) simp_all

lemma dom_slide_loop [simp]:
  "dom (exports (fst (slide_loop w jobId qs n i slides acc))) = dom (exports (fst acc))"
proof (induction slides arbitrary: i acc)
  case Nil
  then show ?case by (cases acc) simp
next
  case (Cons slide rest)
  obtain st vids tot where acc: "acc = (st, vids, tot)"
    by (cases acc) auto
  show ?case
    unfolding acc
    by (simp add: Let_def case_prod_unfold Cons.IH split: sum.splits)
qed

lemma dom_assemble_try [simp]:
  "dom (exports (fst (assemble_try w st slides out qs vt jobId))) = dom (exports st)"
  by (simp add: assemble_try_def Let_def case_prod_unfold split: sum.splits)

lemma dom_assemblePresentationVideo [simp]:
  "dom (exports (fst (assemblePresentationVideo w st slides out qs ts jobId)))
     = dom (exports st)"
  by (simp add: assemblePresentationVideo_def Let_def case_prod_unfold split: sum.splits)

section \<open>Properties of the export orchestration\<close>

lemma fold_pair_step:
  "fold (pair_step imgs narrs) ixs acc =
     acc @ concat (map (\<lambda>i. pair_step imgs narrs i []) ixs)"
proof (induction ixs arbitrary: acc)
  case Nil
  then show ?case by simp
next
  case (Cons i ixs)
  have "pair_step imgs narrs i acc = acc @ pair_step imgs narrs i []"
    by (simp add: pair_step_def split: option.splits)
  then show ?case by (simp add: Cons.IH)
qed

lemma length_pair_step: "length (pair_step imgs narrs i []) \<le> 1"
  by (simp add: pair_step_def split: option.splits)

lemma length_concat_pair_step:
  "length (concat (map (\<lambda>i. pair_step imgs narrs i []) ixs)) \<le> length ixs"
proof (induction ixs)
  case Nil
  then show ?case by simp
next
  case (Cons i ixs)
  then show ?case using length_pair_step [of imgs narrs i] by simp
qed

lemma pair_step_joined:
  assumes "x \<in> set (pair_step imgs narrs i [])" and "i < length imgs"
  shows "\<exists>img \<in> set imgs. \<exists>n \<in> set narrs.
           PresentationRenderResult.slideId img = slideId n \<and>
           imagePath x = PresentationRenderResult.imagePath img \<and>
           audioPath x = SlideNarrationResult.audioPath n \<and>
           SlideVideoInput.duration x = SlideNarrationResult.duration n"
proof (cases "find (\<lambda>n. slideId n = PresentationRenderResult.slideId (imgs ! i)) narrs")
  case None
  with assms(1) show ?thesis by (simp add: pair_step_def)
next
  case (Some n)
  with assms(1) have x: "x = \<lparr>imagePath = PresentationRenderResult.imagePath (imgs ! i),
                                audioPath = SlideNarrationResult.audioPath n,
                                duration = SlideNarrationResult.duration n\<rparr>"
    by (simp add: pair_step_def)
  from Some have "n \<in> set narrs" "slideId n = PresentationRenderResult.slideId (imgs ! i)"
    by (auto simp: find_Some_iff)
  with x assms(2) show ?thesis
    by (intro bexI [of _ "imgs ! i"] bexI [of _ n]) simp_all
qed

lemma sent_report [simp]: "sent (report st eid p ph m) = sent st"
  by (simp add: report_def)

text \<open>
  C4 (the list handed to assembly has exactly min(images, narrations) entries). The claim
  fails: an image whose slide has no narration is dropped. With three slides, of which
  the first has too little text to be narrated and the third fails to render, there are
  two images (s1, s2) and two clips (s2, s3), and only s2 has both: one pair, not two.
\<close>

theorem pairing_shorter_than_min:
  "snd (generatePresentationNarration (example_tts_world (\<lambda>k. example_attempt_ok)) []
          [example_slide ''s1'' ''Hi'', example_slide ''s2'' ''Hello'',
           example_slide ''s3'' ''Hello''] ''alloy'' ''tts-1'' ''mp3'')
     = Inr [example_clip ''s2'', example_clip ''s3''] \<and>
   renderPresentationFromSlides (example_render_world [''s1'', ''s2'', ''s3''] [2])
          [example_slide ''s1'' ''Hi'', example_slide ''s2'' ''Hello'',
           example_slide ''s3'' ''Hello'']
     = Inr [example_image ''s1'', example_image ''s2''] \<and>
   pair_slides [example_image ''s1'', example_image ''s2'']
               [example_clip ''s2'', example_clip ''s3'']
     = [example_input ''s2''] \<and>
   min (length [example_image ''s1'', example_image ''s2''])
       (length [example_clip ''s2'', example_clip ''s3'']) = 2"
proof -
  have "slide_outcomes (example_tts_world (\<lambda>k. example_attempt_ok))
          ''alloy'' ''tts-1'' ''mp3'' 0
          [example_slide ''s1'' ''Hi'', example_slide ''s2'' ''Hello'',
           example_slide ''s3'' ''Hello''] []
        = [Skipped, Narrated (example_clip ''s2''), Narrated (example_clip ''s3'')]"
    by (simp add: tts_eval)
  then have "snd (generatePresentationNarration (example_tts_world (\<lambda>k. example_attempt_ok)) []
          [example_slide ''s1'' ''Hi'', example_slide ''s2'' ''Hello'',
           example_slide ''s3'' ''Hello''] ''alloy'' ''tts-1'' ''mp3'')
     = Inr [example_clip ''s2'', example_clip ''s3'']"
    by (simp add: generatePresentationNarration_result)
  moreover have "renderPresentationFromSlides (example_render_world [''s1'', ''s2'', ''s3''] [2])
          [example_slide ''s1'' ''Hi'', example_slide ''s2'' ''Hello'',
           example_slide ''s3'' ''Hello'']
     = Inr [example_image ''s1'', example_image ''s2'']"
    by (simp add: renderPresentationFromSlides_def renderPresentation_def
                  example_render_world_def example_slide_def example_image_def)
  moreover have "pair_slides [example_image ''s1'', example_image ''s2'']
               [example_clip ''s2'', example_clip ''s3'']
     = [example_input ''s2'']"
    by (simp add: pair_slides_def pair_step_def example_image_def example_clip_def
                  example_input_def upt_rec [of 0] upt_rec [of 1])
  ultimately show ?thesis by simp
qed

text \<open>
  C4, amended. For every list of rendered images and every list of narration clips, the
  list handed to assembly has at most min(number of images, number of clips) entries, and
  each entry joins an image and a clip of the same slide id. For every export run that
  reaches the pairing step (the presentation has slides, narration returned clips, the
  renderer returned images): if no pair results, the run fails with the error
  "Failed to match slide images with narration audio".
\<close>

theorem pairing_at_most_min:
  "length (pair_slides imgs narrs) \<le> min (length imgs) (length narrs) \<and>
   (\<forall>x \<in> set (pair_slides imgs narrs).
      \<exists>img \<in> set imgs. \<exists>n \<in> set narrs.
        PresentationRenderResult.slideId img = slideId n \<and>
        imagePath x = PresentationRenderResult.imagePath img \<and>
        audioPath x = SlideNarrationResult.audioPath n \<and>
        SlideVideoInput.duration x = SlideNarrationResult.duration n) \<and>
   (presentation_slides pres \<noteq> [] \<and>
    snd (generatePresentationNarration (tts w) (sent st) (presentation_slides pres)
           (or_default (VideoExportOptions.voice options) ''alloy'')
           (or_default (ttsModel options) ''tts-1'') ''mp3'') = Inr narrs \<and>
    narrs \<noteq> [] \<and>
    renderPresentationFromSlides (renderer w) (presentation_slides pres) = Inr imgs \<and>
    imgs \<noteq> [] \<and> pair_slides imgs narrs = [] \<longrightarrow>
    snd (processVideoExport w st exportId pres options)
      = Inl (Error ''Failed to match slide images with narration audio''))"
proof (intro conjI ballI impI)
  show "length (pair_slides imgs narrs) \<le> min (length imgs) (length narrs)"
    using length_concat_pair_step [of imgs narrs "[0 ..< min (length imgs) (length narrs)]"]
    by (simp add: pair_slides_def fold_pair_step)
next
  fix x assume "x \<in> set (pair_slides imgs narrs)"
  then obtain i where "i < min (length imgs) (length narrs)"
      and "x \<in> set (pair_step imgs narrs i [])"
    by (auto simp: pair_slides_def fold_pair_step)
  then show "\<exists>img \<in> set imgs. \<exists>n \<in> set narrs.
        PresentationRenderResult.slideId img = slideId n \<and>
        imagePath x = PresentationRenderResult.imagePath img \<and>
        audioPath x = SlideNarrationResult.audioPath n \<and>
        SlideVideoInput.duration x = SlideNarrationResult.duration n"
    using pair_step_joined [of x imgs narrs i] by simp
next
  assume a: "presentation_slides pres \<noteq> [] \<and>
    snd (generatePresentationNarration (tts w) (sent st) (presentation_slides pres)
           (or_default (VideoExportOptions.voice options) ''alloy'')
           (or_default (ttsModel options) ''tts-1'') ''mp3'') = Inr narrs \<and>
    narrs \<noteq> [] \<and>
    renderPresentationFromSlides (renderer w) (presentation_slides pres) = Inr imgs \<and>
    imgs \<noteq> [] \<and> pair_slides imgs narrs = []"
  obtain requests where
    "generatePresentationNarration (tts w) (sent st) (presentation_slides pres)
           (or_default (VideoExportOptions.voice options) ''alloy'')
           (or_default (ttsModel options) ''tts-1'') ''mp3'' = (requests, Inr narrs)"
    using a by (cases "generatePresentationNarration (tts w) (sent st) (presentation_slides pres)
           (or_default (VideoExportOptions.voice options) ''alloy'')
           (or_default (ttsModel options) ''tts-1'') ''mp3''") auto
  with a show "snd (processVideoExport w st exportId pres options)
      = Inl (Error ''Failed to match slide images with narration audio'')"
    by (simp add: processVideoExport_def Let_def)
qed

text \<open>
  The witness: the images of s1 and s2 and the clips of s2 and s3 give the one pair of
  slide s2; and a run with two slides, of which the first has too little text and the
  second fails to render, reaches the pairing step with one image and one clip of
  different slides and fails with the pairing error.
\<close>

theorem pairing_at_most_min_witness:
  "length (pair_slides [example_image ''s1'', example_image ''s2'']
                       [example_clip ''s2'', example_clip ''s3'']) \<le> 2 \<and>
   pair_slides [example_image ''s1'', example_image ''s2'']
               [example_clip ''s2'', example_clip ''s3''] = [example_input ''s2''] \<and>
   snd (processVideoExport
          (example_export_world (example_tts_world (\<lambda>k. example_attempt_ok))
             (example_render_world [''s1'', ''s2''] [1])
             (example_video_world (\<lambda>i. example_slide_world [] 2) True))
          example_server ''e1''
          (example_presentation [example_slide ''s1'' ''Hi'', example_slide ''s2'' ''Hello''])
          \<lparr>quality = None, voice = None, ttsModel = None, transition = None, format = None\<rparr>)
     = Inl (Error ''Failed to match slide images with narration audio'')"
proof -
  let ?w = "example_export_world (example_tts_world (\<lambda>k. example_attempt_ok))
             (example_render_world [''s1'', ''s2''] [1])
             (example_video_world (\<lambda>i. example_slide_world [] 2) True)"
  let ?slides = "[example_slide ''s1'' ''Hi'', example_slide ''s2'' ''Hello'']"
  let ?options = "\<lparr>quality = None, voice = None, ttsModel = None, transition = None,
                    format = None\<rparr>"
  have "slide_outcomes (example_tts_world (\<lambda>k. example_attempt_ok))
          ''alloy'' ''tts-1'' ''mp3'' 0 ?slides []
        = [Skipped, Narrated (example_clip ''s2'')]"
    by (simp add: tts_eval)
  then have narr: "snd (generatePresentationNarration (example_tts_world (\<lambda>k. example_attempt_ok))
          [] ?slides ''alloy'' ''tts-1'' ''mp3'') = Inr [example_clip ''s2'']"
    by (simp add: generatePresentationNarration_result)
  have rend: "renderPresentationFromSlides (example_render_world [''s1'', ''s2''] [1]) ?slides
          = Inr [example_image ''s1'']"
    by (simp add: renderPresentationFromSlides_def renderPresentation_def
                  example_render_world_def example_slide_def example_image_def)
  have none: "pair_slides [example_image ''s1''] [example_clip ''s2''] = []"
    by (simp add: pair_slides_def pair_step_def example_image_def example_clip_def)
  have three: "pair_slides [example_image ''s1'', example_image ''s2'']
               [example_clip ''s2'', example_clip ''s3''] = [example_input ''s2'']"
    by (simp add: pair_slides_def pair_step_def example_image_def example_clip_def
                  example_input_def upt_rec [of 0] upt_rec [of 1])
  from pairing_at_most_min
         [of "[example_image ''s1'', example_image ''s2'']"
             "[example_clip ''s2'', example_clip ''s3'']"]
       pairing_at_most_min
         [of "[example_image ''s1'']" "[example_clip ''s2'']"
             "example_presentation ?slides" ?w example_server ?options "''e1''"]
       narr rend none three
  show ?thesis
    by (simp add: example_export_world_def example_presentation_def example_server_def
                  or_default_def)
qed

lemma dom_processVideoExport [simp]:
  "dom (exports (fst (processVideoExport w st exportId pres options))) = dom (exports st)"
  by (simp add: processVideoExport_def Let_def case_prod_unfold split: sum.splits)

lemma dom_convert_export [simp]:
  "dom (exports (fst (convert_export w st exportId pres fmt options))) = dom (exports st)"
  by (simp add: convert_export_def Let_def case_prod_unfold split: sum.splits option.splits)

lemma dom_export_try [simp]:
  "dom (exports (fst (export_try w st exportId pres fmt options))) = dom (exports st)"
  by (simp add: export_try_def Let_def case_prod_unfold split: sum.splits option.splits)

lemmas export_eval =
  export_try_def convert_export_def processVideoExport_def processExportAsync_def report_def
  updateExportProgress_def updateExportStatus_def updateExportFilePath_def truthy_def
  example_export_world_def example_presentation_def example_server_def example_export_def
  or_default_def download_url_def Let_def

lemma example_refused_run:
  "export_try example_refusing_world example_server ''e1'' example_talk ''video'' None
   = (fst (export_try example_refusing_world example_server ''e1'' example_talk ''video'' None),
      Inl (Error ''Failed to generate any narration. Errors: Narration generation failed: TTS generation failed: connection refused'')) \<and>
   map_option Export.progress
     (exports (fst (export_try example_refusing_world example_server ''e1'' example_talk
                      ''video'' None)) ''e1'') = Some 15 \<and>
   map_option Export.progress
     (exports (processExportAsync example_refusing_world example_server ''e1'' example_talk
                 ''video'' None) ''e1'') = Some 0"
proof -
  have "slide_outcomes (example_tts_world (\<lambda>k. example_refused))
          ''alloy'' ''tts-1'' ''mp3'' 0 [example_slide ''s1'' ''Hello''] []
        = [Failed ''s1'' ''Narration generation failed: TTS generation failed: connection refused'']"
    by (simp add: tts_eval)
  then have narr:
    "snd (generatePresentationNarration (example_tts_world (\<lambda>k. example_refused)) []
            [example_slide ''s1'' ''Hello''] ''alloy'' ''tts-1'' ''mp3'')
     = Inl (Error ''Failed to generate any narration. Errors: Narration generation failed: TTS generation failed: connection refused'')"
    by (simp add: generatePresentationNarration_result)
  obtain requests where run:
    "generatePresentationNarration (example_tts_world (\<lambda>k. example_refused)) []
            [example_slide ''s1'' ''Hello''] ''alloy'' ''tts-1'' ''mp3''
     = (requests, Inl (Error ''Failed to generate any narration. Errors: Narration generation failed: TTS generation failed: connection refused''))"
    using narr
    by (cases "generatePresentationNarration (example_tts_world (\<lambda>k. example_refused)) []
            [example_slide ''s1'' ''Hello''] ''alloy'' ''tts-1'' ''mp3''") simp
  then show ?thesis
    by (simp add: export_eval example_refusing_world_def example_talk_def)
qed

text \<open>
  C2 (on failure the progress of the job record stays frozen at the last value it
  reached and is never reset to 0). The claim fails: the \<^verbatim>\<open>catch\<close> block of
  \<^verbatim>\<open>processExportAsync\<close> writes the progress 0 before it records the error. In the
  counterexample the speech API refuses every request: the try block throws when the
  record shows 15 percent, and the record ends at 0 percent in the phase \<^verbatim>\<open>error\<close>.
\<close>

theorem failed_export_progress_not_frozen:
  "snd (export_try example_refusing_world example_server ''e1'' example_talk ''video'' None)
     = Inl (Error ''Failed to generate any narration. Errors: Narration generation failed: TTS generation failed: connection refused'') \<and>
   map_option Export.progress
     (exports (fst (export_try example_refusing_world example_server ''e1'' example_talk
                      ''video'' None)) ''e1'') = Some 15 \<and>
   map_option Export.progress
     (exports (processExportAsync example_refusing_world example_server ''e1'' example_talk
                 ''video'' None) ''e1'') = Some 0"
  using example_refused_run
  by (simp add: prod_eq_iff)

text \<open>
  C2, amended. When the try block of an export job throws and the job has a record, the
  record ends with the progress 0, the phase \<^verbatim>\<open>error\<close>, the message \<^verbatim>\<open>Error: \<close> followed
  by the message of what was thrown, and not ready. When \<^verbatim>\<open>assemblePresentationVideo\<close>
  throws on a non-empty list of slides, the last progress it writes for the job is 0 with
  the status \<^verbatim>\<open>error\<close>.
\<close>

theorem failed_export_progress_reset:
  "(export_try w st exportId pres fmt options = (st1, Inl e) \<and> exports st exportId \<noteq> None \<longrightarrow>
      (\<exists>r. exports (processExportAsync w st exportId pres fmt options) exportId = Some r \<and>
           Export.progress r = 0 \<and> phase r = Some ''error'' \<and>
           error r = Some (''Error: '' @ message e) \<and> \<not> isReady r)) \<and>
   (assemblePresentationVideo vw st slides out qs ts jobId = (st2, Inl e2) \<and> slides \<noteq> [] \<longrightarrow>
      jobProgress st2 jobId = Some \<lparr>progress = 0, status = ''error''\<rparr> \<and>
      last (console st2) = (jobId, 0, ''error''))"
proof -
  have first: "\<exists>r. exports (processExportAsync w st exportId pres fmt options) exportId = Some r \<and>
           Export.progress r = 0 \<and> phase r = Some ''error'' \<and>
           error r = Some (''Error: '' @ message e) \<and> \<not> isReady r"
    if a: "export_try w st exportId pres fmt options = (st1, Inl e)"
      and b: "exports st exportId \<noteq> None"
  proof -
    have "dom (exports (fst (export_try w st exportId pres fmt options))) = dom (exports st)"
      by simp
    with a b have "exportId \<in> dom (exports st1)" by auto
    then obtain r1 where "exports st1 exportId = Some r1" by auto
    with a show ?thesis
      by (simp add: processExportAsync_def report_def updateExportProgress_def
                    updateExportStatus_def truthy_def Let_def)
  qed
  have second: "jobProgress st2 jobId = Some \<lparr>progress = 0, status = ''error''\<rparr> \<and>
      last (console st2) = (jobId, 0, ''error'')"
    if "assemblePresentationVideo vw st slides out qs ts jobId = (st2, Inl e2)"
      and "slides \<noteq> []"
    using assemble_failure_progress [OF that] by simp
  from first second show ?thesis by blast
qed

text \<open>
  The witness: narration and rendering succeed for the single slide, but the final video
  is not created. The assembly writes 0, 0, 30 and 95, then 0 in its \<^verbatim>\<open>catch\<close> block,
  and the job record ends with the progress 0.
\<close>

lemma example_assembly_failure:
  "assemblePresentationVideo (example_video_world (\<lambda>i. example_slide_world [] 2) False)
     example_server [example_input ''s1''] ''/app/uploads/videos/out.mp4''
     (VIDEO_QUALITY_PRESETS medium) \<lparr>type = ''crossfade'', duration = 1 / 2\<rparr> ''e1''
   = (fst (assemblePresentationVideo (example_video_world (\<lambda>i. example_slide_world [] 2) False)
            example_server [example_input ''s1''] ''/app/uploads/videos/out.mp4''
            (VIDEO_QUALITY_PRESETS medium) \<lparr>type = ''crossfade'', duration = 1 / 2\<rparr> ''e1''),
      Inl (Error ''Video assembly failed: Final presentation video was not created''))"
  by (simp add: prod_eq_iff video_eval)

lemma example_assembly_failure_console:
  "map (\<lambda>(job, p, s). p)
     (console (fst (assemblePresentationVideo
        (example_video_world (\<lambda>i. example_slide_world [] 2) False)
        example_server [example_input ''s1''] ''/app/uploads/videos/out.mp4''
        (VIDEO_QUALITY_PRESETS medium) \<lparr>type = ''crossfade'', duration = 1 / 2\<rparr> ''e1'')))
   = [0, 0, 30, 95, 0]"
  by (simp add: video_eval)

theorem failed_export_progress_reset_witness:
  "(\<exists>r. exports (processExportAsync example_refusing_world example_server ''e1'' example_talk
                   ''video'' None) ''e1'' = Some r \<and>
        Export.progress r = 0 \<and> phase r = Some ''error'' \<and>
        error r = Some ''Error: Failed to generate any narration. Errors: Narration generation failed: TTS generation failed: connection refused'' \<and>
        \<not> isReady r) \<and>
   jobProgress (fst (assemblePresentationVideo
        (example_video_world (\<lambda>i. example_slide_world [] 2) False)
        example_server [example_input ''s1''] ''/app/uploads/videos/out.mp4''
        (VIDEO_QUALITY_PRESETS medium) \<lparr>type = ''crossfade'', duration = 1 / 2\<rparr> ''e1'')) ''e1''
     = Some \<lparr>progress = 0, status = ''error''\<rparr> \<and>
   map (\<lambda>(job, p, s). p)
     (console (fst (assemblePresentationVideo
        (example_video_world (\<lambda>i. example_slide_world [] 2) False)
        example_server [example_input ''s1''] ''/app/uploads/videos/out.mp4''
        (VIDEO_QUALITY_PRESETS medium) \<lparr>type = ''crossfade'', duration = 1 / 2\<rparr> ''e1'')))
     = [0, 0, 30, 95, 0]"
proof -
  have rec: "exports example_server ''e1'' \<noteq> None"
    by (simp add: example_server_def)
  from failed_export_progress_reset
         [of example_refusing_world example_server "''e1''" example_talk "''video''" None
             "fst (export_try example_refusing_world example_server ''e1'' example_talk
                     ''video'' None)"
             "Error ''Failed to generate any narration. Errors: Narration generation failed: TTS generation failed: connection refused''"
             "example_video_world (\<lambda>i. example_slide_world [] 2) False"
             "[example_input ''s1'']" "''/app/uploads/videos/out.mp4''"
             "VIDEO_QUALITY_PRESETS medium" "\<lparr>type = ''crossfade'', duration = 1 / 2\<rparr>" "''e1''"
             "fst (assemblePresentationVideo
                (example_video_world (\<lambda>i. example_slide_world [] 2) False)
                example_server [example_input ''s1''] ''/app/uploads/videos/out.mp4''
                (VIDEO_QUALITY_PRESETS medium) \<lparr>type = ''crossfade'', duration = 1 / 2\<rparr> ''e1'')"
             "Error ''Video assembly failed: Final presentation video was not created''"]
       example_refused_run example_assembly_failure rec example_assembly_failure_console
  show ?thesis by simp
qed

end
